theory Spec2Isabelle
  imports Complex_Main "HOL-Library.Multiset"
begin

section \<open>Values of the dashboard script\<close>

text \<open>
  The script \<^verbatim>\<open>app_final.py\<close> is one top-to-bottom page render. Its three endpoint
  wrappers turn HTTP responses into pandas tables, and the page body reads those tables
  and hands widgets and figures to the display surface. Exceptions of the Python are
  values of the type \<open>error\<close>.
\<close>

datatype error =
    KeyError string
  | IndexError
  | ValueError
  | OutOfBoundsDatetime
  | ConnectionError
  | Malformed

text \<open>
  A pandas number is a binary float. The finite ones are idealised as exact rationals;
  the three special values are kept, because a division by zero in a numeric column
  produces them instead of raising.
\<close>

datatype float64 = Fin rat | PInf | NInf | NaN

fun isnan :: "float64 \<Rightarrow> bool" where
  "isnan NaN = True"
| "isnan _ = False"

fun f_less :: "float64 \<Rightarrow> float64 \<Rightarrow> bool" where
  "f_less NaN _ = False"
| "f_less _ NaN = False"
| "f_less (Fin a) (Fin b) = (a < b)"
| "f_less (Fin a) PInf = True"
| "f_less (Fin a) NInf = False"
| "f_less PInf _ = False"
| "f_less NInf NInf = False"
| "f_less NInf _ = True"

fun f_add :: "float64 \<Rightarrow> float64 \<Rightarrow> float64" where
  "f_add NaN _ = NaN"
| "f_add _ NaN = NaN"
| "f_add (Fin a) (Fin b) = Fin (a + b)"
| "f_add (Fin a) PInf = PInf"
| "f_add (Fin a) NInf = NInf"
| "f_add PInf NInf = NaN"
| "f_add PInf _ = PInf"
| "f_add NInf PInf = NaN"
| "f_add NInf _ = NInf"

fun f_neg :: "float64 \<Rightarrow> float64" where
  "f_neg (Fin a) = Fin (- a)"
| "f_neg PInf = NInf"
| "f_neg NInf = PInf"
| "f_neg NaN = NaN"

fun f_mul :: "float64 \<Rightarrow> float64 \<Rightarrow> float64" where
  "f_mul NaN _ = NaN"
| "f_mul _ NaN = NaN"
| "f_mul (Fin a) (Fin b) = Fin (a * b)"
| "f_mul (Fin a) PInf = (if a = 0 then NaN else if 0 < a then PInf else NInf)"
| "f_mul (Fin a) NInf = (if a = 0 then NaN else if 0 < a then NInf else PInf)"
| "f_mul PInf (Fin b) = (if b = 0 then NaN else if 0 < b then PInf else NInf)"
| "f_mul NInf (Fin b) = (if b = 0 then NaN else if 0 < b then NInf else PInf)"
| "f_mul PInf PInf = PInf"
| "f_mul PInf NInf = NInf"
| "f_mul NInf PInf = NInf"
| "f_mul NInf NInf = PInf"

text \<open>
  Division of numeric columns: a zero divisor gives an infinity or NaN, never an
  exception (signed zeros are not distinguished).
\<close>

fun f_div :: "float64 \<Rightarrow> float64 \<Rightarrow> float64" where
  "f_div NaN _ = NaN"
| "f_div _ NaN = NaN"
| "f_div (Fin a) (Fin b) =
     (if b \<noteq> 0 then Fin (a / b) else if 0 < a then PInf else if a < 0 then NInf else NaN)"
| "f_div (Fin a) PInf = Fin 0"
| "f_div (Fin a) NInf = Fin 0"
| "f_div PInf (Fin b) = (if b < 0 then NInf else PInf)"
| "f_div NInf (Fin b) = (if b < 0 then PInf else NInf)"
| "f_div PInf _ = NaN"
| "f_div NInf _ = NaN"

text \<open>\<^verbatim>\<open>Series.sum()\<close>: NaN entries are skipped, the sum of nothing is 0.\<close>

definition series_sum :: "float64 list \<Rightarrow> float64" where
  "series_sum xs = foldl f_add (Fin 0) (filter (\<lambda>x. \<not> isnan x) xs)"

subsection \<open>Timestamps\<close>

text \<open>
  \<^verbatim>\<open>pd.to_datetime(col, unit="ms")\<close> reads an epoch-millisecond integer as a
  \<^verbatim>\<open>datetime64[ns]\<close>: a signed 64-bit count of nanoseconds since the epoch. A value
  that does not fit raises \<^verbatim>\<open>OutOfBoundsDatetime\<close>.
\<close>

type_synonym timestamp = int

definition to_datetime :: "int \<Rightarrow> error + timestamp" where
  "to_datetime ms =
     (let ns = ms * 1000000
      in if - (2 ^ 63 - 1) \<le> ns \<and> ns \<le> 2 ^ 63 - 1 then Inr ns else Inl OutOfBoundsDatetime)"

fun to_datetime_series :: "int list \<Rightarrow> error + timestamp list" where
  "to_datetime_series [] = Inr []"
| "to_datetime_series (ms # rest) =
     (case to_datetime ms of
        Inl e \<Rightarrow> Inl e
      | Inr t \<Rightarrow> (case to_datetime_series rest of Inl e \<Rightarrow> Inl e | Inr ts \<Rightarrow> Inr (t # ts)))"


subsection \<open>Strings and number formatting\<close>

text \<open>
  \<^verbatim>\<open>str.upper()\<close> and \<^verbatim>\<open>str.capitalize()\<close>, on the ASCII letters that coin
  identifiers and ticker symbols are made of.
\<close>

definition upper_char :: "char \<Rightarrow> char" where
  "upper_char c =
     (case map_of (zip ''abcdefghijklmnopqrstuvwxyz'' ''ABCDEFGHIJKLMNOPQRSTUVWXYZ'') c of
        Some u \<Rightarrow> u | None \<Rightarrow> c)"

definition lower_char :: "char \<Rightarrow> char" where
  "lower_char c =
     (case map_of (zip ''ABCDEFGHIJKLMNOPQRSTUVWXYZ'' ''abcdefghijklmnopqrstuvwxyz'') c of
        Some l \<Rightarrow> l | None \<Rightarrow> c)"

definition upper :: "string \<Rightarrow> string" where
  "upper s = map upper_char s"

fun capitalize :: "string \<Rightarrow> string" where
  "capitalize [] = []"
| "capitalize (c # cs) = upper_char c # map lower_char cs"

fun digits :: "nat \<Rightarrow> string" where
  "digits n =
     (if n < 10 then [''0123456789'' ! n]
      else digits (n div 10) @ [''0123456789'' ! (n mod 10)])"

declare digits.simps [simp del]

definition str_int :: "int \<Rightarrow> string" where
  "str_int i = (if i < 0 then ''-'' @ digits (nat (- i)) else digits (nat i))"

text \<open>The thousands separator of the format option \<^verbatim>\<open>,\<close>, on the reversed digits.\<close>

fun group3 :: "string \<Rightarrow> string" where
  "group3 (a # b # c # d # rest) = a # b # c # CHR '','' # group3 (d # rest)"
| "group3 s = s"

definition round_half_even :: "rat \<Rightarrow> int" where
  "round_half_even q =
     (let n = \<lfloor>q\<rfloor>; r = q - of_int n
      in if r < 1 / 2 then n else if 1 / 2 < r then n + 1 else if even n then n else n + 1)"

text \<open>
  \<^verbatim>\<open>f"{x:.2f}"\<close> is \<open>format_f False 2 x\<close>, \<^verbatim>\<open>f"{x:,.2f}"\<close> is \<open>format_f True 2 x\<close> and
  \<^verbatim>\<open>f"{x:,.0f}"\<close> is \<open>format_f True 0 x\<close>: the value rounded to \<open>d\<close> decimals, ties to
  even.
\<close>

definition format_f :: "bool \<Rightarrow> nat \<Rightarrow> float64 \<Rightarrow> string" where
  "format_f comma d x =
     (case x of
        NaN \<Rightarrow> ''nan''
      | PInf \<Rightarrow> ''inf''
      | NInf \<Rightarrow> ''-inf''
      | Fin q \<Rightarrow>
          (let n = nat (round_half_even (\<bar>q\<bar> * 10 ^ d));
               whole = digits (n div 10 ^ d);
               frac = digits (n mod 10 ^ d)
           in (if q < 0 then ''-'' else [])
              @ (if comma then rev (group3 (rev whole)) else whole)
              @ (if d = 0 then [] else ''.'' @ replicate (d - length frac) CHR ''0'' @ frac)))"

subsection \<open>Tables\<close>

text \<open>
  A pandas DataFrame: its column labels and its rows. \<^verbatim>\<open>pd.DataFrame()\<close> has neither.
  \<^verbatim>\<open>df.empty\<close> holds when either axis has length zero, and \<^verbatim>\<open>df[label]\<close> raises
  \<^verbatim>\<open>KeyError\<close> for a label that is not a column.
\<close>

record 'r frame =
  columns :: "string list"
  rows :: "'r list"

definition DataFrame :: "'r frame" where
  "DataFrame = \<lparr>columns = [], rows = []\<rparr>"

definition empty :: "'r frame \<Rightarrow> bool" where
  "empty df = (columns df = [] \<or> rows df = [])"

definition getitem :: "'r frame \<Rightarrow> string \<Rightarrow> ('r \<Rightarrow> 'a) \<Rightarrow> error + 'a list" where
  "getitem df label field =
     (if label \<in> set (columns df) then Inr (map field (rows df)) else Inl (KeyError label))"

text \<open>
  One object of the markets listing; only the keys the script reads are kept. A numeric
  cell that is null in the listing is NaN in the table.
\<close>

record coin =
  id' :: string
  symbol :: string
  name :: string
  current_price :: float64
  market_cap :: float64
  total_volume :: float64
  price_change_percentage_24h :: float64

text \<open>
  A row of the summary table: the fetched cells and the cell of the derived column
  \<^verbatim>\<open>percent\<close>, which can be read only once the label is among the columns.
\<close>

record row =
  cells :: coin
  percent :: float64

definition coin_columns :: "string list" where
  "coin_columns = [''id'', ''symbol'', ''name'', ''current_price'', ''market_cap'',
     ''total_volume'', ''price_change_percentage_24h'']"

text \<open>\<^verbatim>\<open>pd.DataFrame(records)\<close>: the columns are the keys of the records, so none for \<open>[]\<close>.\<close>

definition DataFrame_of_records :: "coin list \<Rightarrow> row frame" where
  "DataFrame_of_records cs =
     \<lparr>columns = (if cs = [] then [] else coin_columns),
      rows = map (\<lambda>c. \<lparr>cells = c, percent = NaN\<rparr>) cs\<rparr>"

text \<open>\<^verbatim>\<open>df["percent"] = values\<close>: writes the column into the table, appending its label.\<close>

definition set_percent :: "row frame \<Rightarrow> float64 list \<Rightarrow> row frame" where
  "set_percent df vs =
     \<lparr>columns = (if ''percent'' \<in> set (columns df) then columns df else columns df @ [''percent'']),
      rows = map (\<lambda>(r, v). r\<lparr>percent := v\<rparr>) (zip (rows df) vs)\<rparr>"

text \<open>
  \<^verbatim>\<open>df.sort_values(by="percent", ascending=False)\<close> returns a new table whose rows
  are those of \<open>df\<close> taken in the order of an indexer that the sorting routine of
  the library computes from the key column. The routine puts the keys in descending
  order, NaN keys last; which of several equal keys comes first it does not determine
  (the default kind, quicksort, is not stable, and the order differs between builds of
  the library). So the routine is a parameter of the script, as the upstream service is,
  and \<open>is_sort_order\<close> says what is known of the indexer it returns: a permutation of
  the row positions along which the keys descend, NaN last.
\<close>

type_synonym argsort = "float64 list \<Rightarrow> nat list"

definition desc_nan_last :: "float64 \<Rightarrow> float64 \<Rightarrow> bool" where
  "desc_nan_last a b = (isnan b \<or> (\<not> isnan a \<and> \<not> f_less a b))"

definition is_sort_order :: "float64 list \<Rightarrow> nat list \<Rightarrow> bool" where
  "is_sort_order keys indexer =
     (sort indexer = [0..<length keys]
      \<and> sorted_wrt desc_nan_last (map (\<lambda>i. keys ! i) indexer))"

definition sort_values_percent_desc :: "argsort \<Rightarrow> row frame \<Rightarrow> error + row frame" where
  "sort_values_percent_desc sort_order df =
     (let indexer = sort_order (map percent (rows df))
      in if list_all (\<lambda>i. i < length (rows df)) indexer
         then Inr (df\<lparr>rows := map (\<lambda>i. rows df ! i) indexer\<rparr>)
         else Inl IndexError)"

text \<open>A row of an OHLC table (indexed by timestamp) and of a price table.\<close>

record ohlc_point =
  timestamp :: timestamp
  open' :: float64
  high :: float64
  low :: float64
  close :: float64

record price_point =
  p_timestamp :: timestamp
  price :: float64


section \<open>The display surface and the upstream service\<close>

subsection \<open>What the page shows\<close>

text \<open>
  Figures handed to \<^verbatim>\<open>st.plotly_chart\<close>. The series and the arguments computed from
  the data are kept; constant styling arguments are left out.
\<close>

record candlestick =
  cs_x :: "timestamp list"
  cs_open :: "float64 list"
  cs_high :: "float64 list"
  cs_low :: "float64 list"
  cs_close :: "float64 list"
  cs_xaxis_title :: string
  cs_yaxis_title :: string
  cs_rangeslider_visible :: bool

record scatter =
  sc_x :: "float64 list"
  sc_y :: "float64 list"
  sc_text :: "string list"
  sc_marker_size :: "float64 list"
  sc_marker_sizeref :: float64
  sc_marker_color :: "string list"
  sc_hovertext :: "string list"
  sc_title :: string

record bar =
  bar_x :: "string list"
  bar_y :: "float64 list"
  bar_text :: "string list"
  bar_marker_color :: "string list"
  bar_title :: string

datatype figure = Candlestick candlestick | Scatter scatter | Bar bar

datatype element =
    PageConfig string string
  | Title string
  | Header string
  | Markdown string
  | Metric string string string
  | Multiselect string "string list" string
  | Tabs "string list"
  | Subheader string
  | Caption string
  | Selectbox string "int list" nat
  | Info string
  | PlotlyChart figure

datatype place = Page | Sidebar | Tab1 | Tab2 | Tab3

subsection \<open>Requests and responses\<close>

datatype param = PStr string | PInt int

record request =
  url :: string
  params :: "(string \<times> param) list"

text \<open>
  The decoded body of a response: the markets listing, the OHLC rows
  \<^verbatim>\<open>[timestamp, open, high, low, close]\<close>, the \<^verbatim>\<open>prices\<close> rows
  \<^verbatim>\<open>[timestamp, price]\<close> of a market chart, or anything else.
\<close>

datatype json_value =
    Markets "coin list"
  | OhlcRows "(int \<times> float64 \<times> float64 \<times> float64 \<times> float64) list"
  | MarketChart "(int \<times> float64) list"
  | Other

record response =
  status_code :: int
  json :: json_value

text \<open>
  \<^verbatim>\<open>requests.get\<close>, as seen from the script: the upstream service answers a request
  with a response, or the call raises. The credential header is the same on every
  request and is left out.
\<close>

type_synonym http = "request \<Rightarrow> error + response"

subsection \<open>Running the script\<close>

text \<open>
  The state of one render: what has been put on the page, in order, and the requests
  sent. A step returns a value or raises, and raising ends the script where it stands.
\<close>

record page =
  shown :: "(place \<times> element) list"
  sent :: "request list"

type_synonym 'a script = "page \<Rightarrow> (error + 'a) \<times> page"

definition ret :: "'a \<Rightarrow> 'a script" where
  "ret x = (\<lambda>p. (Inr x, p))"

definition raise :: "error \<Rightarrow> 'a script" where
  "raise e = (\<lambda>p. (Inl e, p))"

definition bind :: "'a script \<Rightarrow> ('a \<Rightarrow> 'b script) \<Rightarrow> 'b script" where
  "bind m f = (\<lambda>p. case m p of (Inl e, p') \<Rightarrow> (Inl e, p') | (Inr x, p') \<Rightarrow> f x p')"

definition seq :: "'a script \<Rightarrow> 'b script \<Rightarrow> 'b script" where
  "seq m n = bind m (\<lambda>_. n)"

definition lift :: "error + 'a \<Rightarrow> 'a script" where
  "lift r = (case r of Inl e \<Rightarrow> raise e | Inr x \<Rightarrow> ret x)"

definition emit :: "place \<Rightarrow> element \<Rightarrow> unit script" where
  "emit pl el = (\<lambda>p. (Inr (), p\<lparr>shown := shown p @ [(pl, el)]\<rparr>))"

primrec foreach :: "'a list \<Rightarrow> ('a \<Rightarrow> unit script) \<Rightarrow> unit script" where
  "foreach [] body = ret ()"
| "foreach (x # xs) body = seq (body x) (foreach xs body)"

definition requests_get :: "http \<Rightarrow> string \<Rightarrow> (string \<times> param) list \<Rightarrow> response script" where
  "requests_get http u ps =
     (\<lambda>p. (http \<lparr>url = u, params = ps\<rparr>, p\<lparr>sent := sent p @ [\<lparr>url = u, params = ps\<rparr>]\<rparr>))"

section \<open>Market data client\<close>

text \<open>
  The three wrappers. Each sends one request; a response with status 200 is turned into
  a table, any other status gives \<^verbatim>\<open>pd.DataFrame()\<close>. A body of another shape than
  the endpoint's is outside this model and is reported as \<open>Malformed\<close>.
\<close>

definition ohlc_url :: "string \<Rightarrow> string" where
  "ohlc_url coin_id = ''https://api.coingecko.com/api/v3/coins/'' @ coin_id @ ''/ohlc''"

definition markets_url :: string where
  "markets_url = ''https://api.coingecko.com/api/v3/coins/markets''"

definition market_chart_url :: "string \<Rightarrow> string" where
  "market_chart_url coin_id =
     ''https://api.coingecko.com/api/v3/coins/'' @ coin_id @ ''/market_chart''"

definition get_ohlc_data :: "http \<Rightarrow> string \<Rightarrow> int \<Rightarrow> ohlc_point frame script" where
  "get_ohlc_data http coin_id days =
     bind (requests_get http (ohlc_url coin_id)
             [(''vs_currency'', PStr ''usd''), (''days'', PInt days)])
       (\<lambda>response.
          if status_code response = 200 then
            (case json response of
               OhlcRows rs \<Rightarrow>
                 bind (lift (to_datetime_series (map fst rs)))
                   (\<lambda>ts. ret \<lparr>columns = [''open'', ''high'', ''low'', ''close''],
                               rows = map (\<lambda>(t, (_, ope, hi, lo, clo)).
                                        \<lparr>timestamp = t, open' = ope, high = hi, low = lo, close = clo\<rparr>)
                                      (zip ts rs)\<rparr>)
             | _ \<Rightarrow> raise Malformed)
          else ret DataFrame)"

definition get_top_coins :: "http \<Rightarrow> int \<Rightarrow> row frame script" where
  "get_top_coins http n =
     bind (requests_get http markets_url
             [(''vs_currency'', PStr ''usd''), (''order'', PStr ''market_cap_desc''),
              (''per_page'', PInt n), (''page'', PInt 1)])
       (\<lambda>response.
          if status_code response = 200 then
            (case json response of
               Markets cs \<Rightarrow> ret (DataFrame_of_records cs)
             | _ \<Rightarrow> raise Malformed)
          else ret DataFrame)"

definition get_market_chart :: "http \<Rightarrow> string \<Rightarrow> int \<Rightarrow> price_point frame script" where
  "get_market_chart http coin_id days =
     bind (requests_get http (market_chart_url coin_id)
             [(''vs_currency'', PStr ''usd''), (''days'', PInt days)])
       (\<lambda>response.
          if status_code response = 200 then
            (case json response of
               MarketChart prices \<Rightarrow>
                 bind (lift (to_datetime_series (map fst prices)))
                   (\<lambda>ts. ret \<lparr>columns = [''price''],
                               rows = map (\<lambda>(t, (_, pr)). \<lparr>p_timestamp = t, price = pr\<rparr>)
                                      (zip ts prices)\<rparr>)
             | _ \<Rightarrow> raise Malformed)
          else ret DataFrame)"


section \<open>The page\<close>

subsection \<open>Sidebar\<close>

definition sidebar_overview :: "row frame \<Rightarrow> unit script" where
  "sidebar_overview df_top5 =
     (if \<not> empty df_top5 then
        seq (emit Sidebar (Header ''Top Five Cryptocurrencies Overview''))
       (seq (emit Sidebar (Markdown
               ''View the current price and 24-hour price change for the top five cryptocurrencies by market cap.''))
       (seq (foreach (rows df_top5) (\<lambda>row.
               emit Sidebar (Metric
                 (name (cells row) @ '' ('' @ upper (symbol (cells row)) @ '')'')
                 (''$'' @ format_f True 2 (current_price (cells row)))
                 (format_f False 2 (price_change_percentage_24h (cells row)) @ ''%''))))
            (emit Sidebar (Markdown ''---''))))
      else ret ())"

text \<open>
  The multiselect. Its options and its default are computed from the summary table
  before the widget is called; the widget then returns what the user has selected,
  \<open>multiselect_value\<close>.
\<close>

definition coin_filters :: "row frame \<Rightarrow> string list \<Rightarrow> string list script" where
  "coin_filters df_top5 multiselect_value =
     seq (emit Sidebar (Title ''Coin Filters''))
    (seq (emit Sidebar (Markdown
            ''Select one or more coins to visualize their market trends, trading volume, etc.''))
    (bind (lift (getitem df_top5 ''id'' (\<lambda>r. id' (cells r)))) (\<lambda>options.
     bind (lift (getitem df_top5 ''id'' (\<lambda>r. id' (cells r)))) (\<lambda>ids.
     bind (lift (case ids of [] \<Rightarrow> Inl IndexError | first # _ \<Rightarrow> Inr first)) (\<lambda>default.
     seq (emit Sidebar (Multiselect ''Select Coin(s) to Display'' options default))
         (ret multiselect_value))))))"

subsection \<open>Tab 1: candlestick charts\<close>

text \<open>The select box returns the day range the user has chosen, \<open>selectbox_value\<close>.\<close>

definition tab1 :: "http \<Rightarrow> string list \<Rightarrow> int \<Rightarrow> unit script" where
  "tab1 http coin_choice selectbox_value =
     seq (emit Tab1 (Subheader ''Price Movement (Candlestick Chart)''))
       (if coin_choice \<noteq> [] then
          bind (seq (emit Tab1 (Selectbox ''Select number of days for OHLC data''
                                  [1, 7, 14, 30, 90, 180, 365] 3))
                    (ret selectbox_value)) (\<lambda>days.
          foreach coin_choice (\<lambda>c.
            bind (get_ohlc_data http c days) (\<lambda>df_ohlc.
              if \<not> empty df_ohlc then
                seq (emit Tab1 (Subheader
                       (capitalize c @ '' Price Trend (Last '' @ str_int days @ '' Days)'')))
                    (emit Tab1 (PlotlyChart (Candlestick
                       \<lparr>cs_x = map timestamp (rows df_ohlc),
                        cs_open = map open' (rows df_ohlc),
                        cs_high = map high (rows df_ohlc),
                        cs_low = map low (rows df_ohlc),
                        cs_close = map close (rows df_ohlc),
                        cs_xaxis_title = ''Date'',
                        cs_yaxis_title = ''Price (USD)'',
                        cs_rangeslider_visible = False\<rparr>)))
              else ret ())))
        else emit Tab1 (Info ''Please select at least one coin to see candlestick chart.''))"

subsection \<open>Tab 2: bubble chart\<close>

definition custom_colors :: "string list" where
  "custom_colors = [''#636EFA'', ''#EF553B'', ''#00CC96'', ''#AB63FA'', ''#FFA15A'']"

text \<open>
  The dict comprehension
  \<^verbatim>\<open>{coin: custom_colors[i % len(custom_colors)] for i, coin in enumerate(coin_ids)}\<close>:
  entries are stored in list order, a later entry replacing an earlier one of the same key.
\<close>

fun assign :: "(string \<rightharpoonup> string) \<Rightarrow> (nat \<times> string) list \<Rightarrow> (string \<rightharpoonup> string)" where
  "assign m [] = m"
| "assign m ((i, coin) # rest) =
     assign (m(coin \<mapsto> custom_colors ! (i mod length custom_colors))) rest"

definition colors :: "string list \<Rightarrow> (string \<rightharpoonup> string)" where
  "colors coin_ids = assign Map.empty (enumerate 0 coin_ids)"

fun lookup_all :: "(string \<rightharpoonup> 'v) \<Rightarrow> string list \<Rightarrow> error + 'v list" where
  "lookup_all m [] = Inr []"
| "lookup_all m (k # ks) =
     (case m k of
        None \<Rightarrow> Inl (KeyError k)
      | Some v \<Rightarrow> (case lookup_all m ks of Inl e \<Rightarrow> Inl e | Inr vs \<Rightarrow> Inr (v # vs)))"

text \<open>The builtin \<^verbatim>\<open>max\<close> over a column: the first value unless a later one is greater.\<close>

definition py_max :: "float64 list \<Rightarrow> error + float64" where
  "py_max xs =
     (case xs of
        [] \<Rightarrow> Inl ValueError
      | x # rest \<Rightarrow> Inr (foldl (\<lambda>best y. if f_less best y then y else best) x rest))"

definition hover_text :: "row \<Rightarrow> string" where
  "hover_text row =
     ''<b>'' @ name (cells row) @ ''</b><br>''
     @ ''Current Price: $'' @ format_f True 2 (current_price (cells row)) @ ''<br>''
     @ ''Market Cap: $'' @ format_f True 0 (market_cap (cells row)) @ ''<br>''
     @ ''Trading Volume in Past 24 Hours (USD): $''
     @ format_f True 0 (total_volume (cells row)) @ ''<br>''
     @ ''Price Change Over Last 24 Hours: ''
     @ format_f False 2 (price_change_percentage_24h (cells row)) @ ''%''"

text \<open>
  \<^verbatim>\<open>go.Scatter\<close> validates the marker sizes it is given: each must be a number that
  is not below 0, so a NaN or a negative volume makes it raise \<^verbatim>\<open>ValueError\<close>.
\<close>

definition valid_size :: "float64 \<Rightarrow> bool" where
  "valid_size v = (\<not> isnan v \<and> \<not> f_less v (Fin 0))"

definition tab2 :: "row frame \<Rightarrow> string list \<Rightarrow> unit script" where
  "tab2 df_top5 coin_choice =
     seq (emit Tab2 (Subheader
            ''Market Cap and Current Price Comparison (Bubble Size = Trading Volume)''))
    (bind (lift (getitem df_top5 ''id'' (\<lambda>r. id' (cells r)))) (\<lambda>all_ids.
     let df_bubbles = df_top5\<lparr>rows := filter (\<lambda>r. id' (cells r) \<in> set coin_choice) (rows df_top5)\<rparr>
     in seq (emit Tab2 (Caption ''For better comparison, select multiple coins from the filter.''))
       (if \<not> empty df_bubbles then
          bind (lift (getitem df_bubbles ''id'' (\<lambda>r. id' (cells r)))) (\<lambda>coin_ids.
          bind (lift (getitem df_bubbles ''market_cap'' (\<lambda>r. market_cap (cells r)))) (\<lambda>xs.
          bind (lift (getitem df_bubbles ''current_price'' (\<lambda>r. current_price (cells r)))) (\<lambda>ys.
          bind (lift (getitem df_bubbles ''symbol'' (\<lambda>r. symbol (cells r)))) (\<lambda>symbols.
          bind (lift (getitem df_bubbles ''total_volume'' (\<lambda>r. total_volume (cells r)))) (\<lambda>sizes.
          bind (lift (py_max sizes)) (\<lambda>largest.
          bind (lift (lookup_all (colors coin_ids) coin_ids)) (\<lambda>marker_colors.
          bind (lift (if list_all valid_size sizes then Inr () else Inl ValueError)) (\<lambda>_.
          emit Tab2 (PlotlyChart (Scatter
            \<lparr>sc_x = xs,
             sc_y = ys,
             sc_text = map upper symbols,
             sc_marker_size = sizes,
             sc_marker_sizeref = f_div (f_mul (Fin 2) largest) (Fin (100 ^ 2)),
             sc_marker_color = marker_colors,
             sc_hovertext = map hover_text (rows df_bubbles),
             sc_title = ''Market Cap vs Current Price (Bubble Size = Trading Volume)''\<rparr>))))))))))
        else emit Tab2 (Info ''Please select at least one coin to view bubble chart.''))))"

subsection \<open>Tab 3: volume share\<close>

text \<open>
  \<^verbatim>\<open>(df_top5["total_volume"] / df_top5["total_volume"].sum()) * 100\<close>, as a function
  of the volume column.
\<close>

definition volume_percent :: "float64 list \<Rightarrow> float64 list" where
  "volume_percent volumes =
     map (\<lambda>v. f_mul (f_div v (series_sum volumes)) (Fin 100)) volumes"

text \<open>
  The first statement of the tab writes the column \<^verbatim>\<open>percent\<close> into the summary
  table itself.
\<close>

definition add_percent :: "row frame \<Rightarrow> error + row frame" where
  "add_percent df_top5 =
     (case getitem df_top5 ''total_volume'' (\<lambda>r. total_volume (cells r)) of
        Inl e \<Rightarrow> Inl e
      | Inr volumes \<Rightarrow> Inr (set_percent df_top5 (volume_percent volumes)))"

text \<open>
  The second statement binds the name \<^verbatim>\<open>df_top5\<close> to a sorted copy. The tab returns
  the fetched table as the write has left it, and the table the name ends bound to.
\<close>

definition tab3 :: "argsort \<Rightarrow> row frame \<Rightarrow> string list \<Rightarrow> (row frame \<times> row frame) script" where
  "tab3 sort_order df_fetched coin_choice =
     bind (lift (add_percent df_fetched)) (\<lambda>df_written.
     bind (lift (sort_values_percent_desc sort_order df_written)) (\<lambda>df_top5.
     seq (emit Tab3 (Subheader ''Top Five Cryptocurrencies by Trading Volume Share''))
    (seq (emit Tab3 (Caption
            ''The highlighted color in the bar chart indicates the coin(s) selected from the sidebar filter.''))
    (seq (if \<not> empty df_top5 then
            emit Tab3 (PlotlyChart (Bar
              \<lparr>bar_x = map (\<lambda>r. name (cells r)) (rows df_top5),
               bar_y = map percent (rows df_top5),
               bar_text = map (\<lambda>r. format_f False 2 (percent r) @ ''%'') (rows df_top5),
               bar_marker_color =
                 map (\<lambda>r. if id' (cells r) \<in> set coin_choice then ''steelblue'' else ''lightgray'')
                   (rows df_top5),
               bar_title = ''Trading Volume Share (Top Five Cryptocurrencies)''\<rparr>))
          else ret ())
         (ret (df_written, df_top5))))))"

subsection \<open>The whole script\<close>

text \<open>
  One render, for the user's current coin selection and day range, with the upstream
  service and the library's sorting routine it runs against. The value returned is that
  of the last tab.
\<close>

definition render ::
  "http \<Rightarrow> argsort \<Rightarrow> string list \<Rightarrow> int \<Rightarrow> (row frame \<times> row frame) script" where
  "render http sort_order multiselect_value selectbox_value =
     seq (emit Page (PageConfig ''Crypto Dashboard'' ''wide''))
    (seq (emit Page (Title ''Crypto Market Dashboard''))
    (bind (get_top_coins http 5) (\<lambda>df_top5.
     seq (sidebar_overview df_top5)
    (bind (coin_filters df_top5 multiselect_value) (\<lambda>coin_choice.
     seq (emit Page (Tabs [''Price Overview'', ''Market Comparison'', ''Volume Analysis'']))
    (seq (tab1 http coin_choice selectbox_value)
    (seq (tab2 df_top5 coin_choice)
         (tab3 sort_order df_top5 coin_choice))))))))"

definition blank :: page where
  "blank = \<lparr>shown = [], sent = []\<rparr>"


text \<open>The figures on a page, with the place of each, in the order they were drawn.\<close>

fun figure_of :: "place \<times> element \<Rightarrow> (place \<times> figure) list" where
  "figure_of (pl, PlotlyChart fig) = [(pl, fig)]"
| "figure_of _ = []"

definition charts :: "page \<Rightarrow> (place \<times> figure) list" where
  "charts pg = concat (map figure_of (shown pg))"

subsection \<open>Sample responses\<close>

text \<open>
  Concrete surroundings to run the script in: a service that is down, one that answers
  the markets listing with five coins of volumes 100 to 500 and every OHLC request with
  two rows, the newer one first, and a sorting routine.
\<close>

definition sample_coin :: "string \<Rightarrow> string \<Rightarrow> string \<Rightarrow> rat \<Rightarrow> coin" where
  "sample_coin i s n v =
     \<lparr>id' = i, symbol = s, name = n, current_price = Fin (5 / 2), market_cap = Fin 1000000,
      total_volume = Fin v, price_change_percentage_24h = Fin (- (3 / 2))\<rparr>"

definition sample_coins :: "coin list" where
  "sample_coins =
     [sample_coin ''bitcoin'' ''btc'' ''Bitcoin'' 100,
      sample_coin ''ethereum'' ''eth'' ''Ethereum'' 200,
      sample_coin ''tether'' ''usdt'' ''Tether'' 300,
      sample_coin ''ripple'' ''xrp'' ''XRP'' 400,
      sample_coin ''solana'' ''sol'' ''Solana'' 500]"

definition sample_ohlc :: "(int \<times> float64 \<times> float64 \<times> float64 \<times> float64) list" where
  "sample_ohlc =
     [(1700003600000, Fin 11, Fin 13, Fin 10, Fin 12),
      (1700000000000, Fin 10, Fin 12, Fin 9, Fin 11)]"

text \<open>One sorting routine: insertion by key, the positions of NaN keys appended.\<close>

fun insert_index :: "float64 list \<Rightarrow> nat \<Rightarrow> nat list \<Rightarrow> nat list" where
  "insert_index keys i [] = [i]"
| "insert_index keys i (j # js) =
     (if f_less (keys ! i) (keys ! j) then j # insert_index keys i js else i # j # js)"

definition sample_sort_order :: argsort where
  "sample_sort_order keys =
     foldr (insert_index keys) (filter (\<lambda>i. \<not> isnan (keys ! i)) [0..<length keys]) []
     @ filter (\<lambda>i. isnan (keys ! i)) [0..<length keys]"

definition http_down :: http where
  "http_down r = Inr \<lparr>status_code = 503, json = Other\<rparr>"

definition http_sample :: http where
  "http_sample r =
     (if url r = markets_url then Inr \<lparr>status_code = 200, json = Markets sample_coins\<rparr>
      else Inr \<lparr>status_code = 200, json = OhlcRows sample_ohlc\<rparr>)"

section \<open>Running a script: basic facts\<close>

lemma bind_ret [simp]: "bind (ret x) f = f x"
  by (simp add: bind_def ret_def)

lemma bind_raise [simp]: "bind (raise e) f = raise e"
  by (simp add: bind_def raise_def)

lemma seq_ret [simp]: "seq (ret x) n = n"
  by (simp add: seq_def)

lemma seq_raise [simp]: "seq (raise e) n = raise e"
  by (simp add: seq_def)

lemma lift_simps [simp]: "lift (Inr x) = ret x" "lift (Inl e) = raise e"
  by (simp_all add: lift_def)

lemma ret_apply: "ret x p = (Inr x, p)"
  by (simp add: ret_def)

lemma raise_apply: "raise e p = (Inl e, p)"
  by (simp add: raise_def)

lemma emit_apply: "emit pl el p = (Inr (), p\<lparr>shown := shown p @ [(pl, el)]\<rparr>)"
  by (simp add: emit_def)

lemma bind_apply:
  "bind m f p = (case m p of (Inl e, p') \<Rightarrow> (Inl e, p') | (Inr x, p') \<Rightarrow> f x p')"
  by (simp add: bind_def)

lemma seq_apply:
  "seq m n p = (case m p of (Inl e, p') \<Rightarrow> (Inl e, p') | (Inr x, p') \<Rightarrow> n p')"
  by (simp add: seq_def bind_def)

lemma bind_requests_get:
  "bind (requests_get http u ps) f p =
     (case http \<lparr>url = u, params = ps\<rparr> of
        Inl e \<Rightarrow> (Inl e, p\<lparr>sent := sent p @ [\<lparr>url = u, params = ps\<rparr>]\<rparr>)
      | Inr response \<Rightarrow> f response (p\<lparr>sent := sent p @ [\<lparr>url = u, params = ps\<rparr>]\<rparr>))"
  by (simp add: bind_def requests_get_def split: sum.splits)

lemma foreach_emit:
  "foreach xs (\<lambda>x. emit pl (g x)) p = (Inr (), p\<lparr>shown := shown p @ map (\<lambda>x. (pl, g x)) xs\<rparr>)"
  by (induction xs arbitrary: p) (simp_all add: ret_apply seq_apply emit_apply)

text \<open>A script that returns has run each of its steps to a return.\<close>

lemma fst_bind_Inr:
  "fst (bind m f p) = Inr y \<Longrightarrow> \<exists>x p'. m p = (Inr x, p') \<and> fst (f x p') = Inr y"
  by (cases "m p") (auto simp: bind_apply split: sum.splits)

lemma fst_seq_Inr:
  "fst (seq m n p) = Inr y \<Longrightarrow> \<exists>x p'. m p = (Inr x, p') \<and> fst (n p') = Inr y"
  unfolding seq_def by (rule fst_bind_Inr)

section \<open>Timestamp normalisation\<close>

lemma to_datetime_series_Inr:
  "to_datetime_series ms = Inr ts \<Longrightarrow> ts = map (\<lambda>m. m * 1000000) ms"
  by (induction ms arbitrary: ts)
     (auto simp: to_datetime_def Let_def split: sum.splits if_splits)

lemma to_datetime_series_in_range:
  "list_all (\<lambda>m. - (2 ^ 63 - 1) \<le> m * 1000000 \<and> m * 1000000 \<le> 2 ^ 63 - 1) ms
   \<Longrightarrow> to_datetime_series ms = Inr (map (\<lambda>m. m * 1000000) ms)"
  by (induction ms) (auto simp: to_datetime_def Let_def)

text \<open>
  Claim C8. The conversion from epoch milliseconds keeps time differences: 1700000000000
  and 1700003600000 become timestamps exactly one hour (3600 * 10^9 ns) apart; whenever
  two inputs are converted, the results differ by the inputs' difference in
  milliseconds; and every input inside the nanosecond range is converted.
\<close>

theorem to_datetime_keeps_differences:
  "(\<exists>t1 t2. to_datetime 1700000000000 = Inr t1 \<and> to_datetime 1700003600000 = Inr t2
       \<and> t2 - t1 = 3600 * 10 ^ 9)
   \<and> (to_datetime a = Inr ta \<and> to_datetime b = Inr tb \<longrightarrow> tb - ta = (b - a) * 10 ^ 6)
   \<and> (- (2 ^ 63 - 1) \<le> a * 10 ^ 6 \<and> a * 10 ^ 6 \<le> 2 ^ 63 - 1 \<longrightarrow> (\<exists>t. to_datetime a = Inr t))"
proof (intro conjI impI)
  show "\<exists>t1 t2. to_datetime 1700000000000 = Inr t1 \<and> to_datetime 1700003600000 = Inr t2
       \<and> t2 - t1 = 3600 * 10 ^ 9"
    by (simp add: to_datetime_def)
next
  assume "to_datetime a = Inr ta \<and> to_datetime b = Inr tb"
  then have "ta = a * 1000000" "tb = b * 1000000"
    by (auto simp: to_datetime_def Let_def split: if_splits)
  then show "tb - ta = (b - a) * 10 ^ 6"
    by (simp add: algebra_simps)
next
  assume "- (2 ^ 63 - 1) \<le> a * 10 ^ 6 \<and> a * 10 ^ 6 \<le> 2 ^ 63 - 1"
  then show "\<exists>t. to_datetime a = Inr t"
    by (simp add: to_datetime_def Let_def)
qed

theorem to_datetime_keeps_differences_witness:
  "to_datetime 1000 = Inr 1000000000 \<and> to_datetime 4000 = Inr 4000000000
   \<and> (4000000000::int) - 1000000000 = (4000 - 1000) * 10 ^ 6
   \<and> (\<exists>t. to_datetime 1000 = Inr t)"
  using to_datetime_keeps_differences [of 1000 1000000000 4000 4000000000]
  by (simp add: to_datetime_def)

section \<open>Market data client\<close>

lemma empty_DataFrame: "empty DataFrame"
  by (simp add: empty_def DataFrame_def)

lemma get_ohlc_data_not_200:
  assumes "http \<lparr>url = ohlc_url coin_id,
             params = [(''vs_currency'', PStr ''usd''), (''days'', PInt days)]\<rparr> = Inr response"
    and "status_code response \<noteq> 200"
  shows "get_ohlc_data http coin_id days p =
           (Inr DataFrame,
            p\<lparr>sent := sent p @ [\<lparr>url = ohlc_url coin_id,
                  params = [(''vs_currency'', PStr ''usd''), (''days'', PInt days)]\<rparr>]\<rparr>)"
  using assms by (simp add: get_ohlc_data_def bind_requests_get ret_apply)

lemma get_top_coins_not_200:
  assumes "http \<lparr>url = markets_url,
             params = [(''vs_currency'', PStr ''usd''), (''order'', PStr ''market_cap_desc''),
                       (''per_page'', PInt n), (''page'', PInt 1)]\<rparr> = Inr response"
    and "status_code response \<noteq> 200"
  shows "get_top_coins http n p =
           (Inr DataFrame,
            p\<lparr>sent := sent p @ [\<lparr>url = markets_url,
                  params = [(''vs_currency'', PStr ''usd''), (''order'', PStr ''market_cap_desc''),
                            (''per_page'', PInt n), (''page'', PInt 1)]\<rparr>]\<rparr>)"
  using assms by (simp add: get_top_coins_def bind_requests_get ret_apply)

lemma get_market_chart_not_200:
  assumes "http \<lparr>url = market_chart_url coin_id,
             params = [(''vs_currency'', PStr ''usd''), (''days'', PInt days)]\<rparr> = Inr response"
    and "status_code response \<noteq> 200"
  shows "get_market_chart http coin_id days p =
           (Inr DataFrame,
            p\<lparr>sent := sent p @ [\<lparr>url = market_chart_url coin_id,
                  params = [(''vs_currency'', PStr ''usd''), (''days'', PInt days)]\<rparr>]\<rparr>)"
  using assms by (simp add: get_market_chart_def bind_requests_get ret_apply)

lemma get_top_coins_200:
  assumes "http \<lparr>url = markets_url,
             params = [(''vs_currency'', PStr ''usd''), (''order'', PStr ''market_cap_desc''),
                       (''per_page'', PInt n), (''page'', PInt 1)]\<rparr>
           = Inr \<lparr>status_code = 200, json = Markets cs\<rparr>"
  shows "get_top_coins http n p =
           (Inr (DataFrame_of_records cs),
            p\<lparr>sent := sent p @ [\<lparr>url = markets_url,
                  params = [(''vs_currency'', PStr ''usd''), (''order'', PStr ''market_cap_desc''),
                            (''per_page'', PInt n), (''page'', PInt 1)]\<rparr>]\<rparr>)"
  using assms by (simp add: get_top_coins_def bind_requests_get ret_apply)

text \<open>
  Claim C2. Each of the three wrappers, when the response to its request has a
  non-success status (below 200 or above 299), returns the empty table
  \<^verbatim>\<open>pd.DataFrame()\<close> and raises nothing; it has sent exactly its one request.
\<close>

theorem wrappers_return_empty_on_failure:
  assumes "status_code response < 200 \<or> 299 < status_code response"
  shows "(http \<lparr>url = ohlc_url coin_id,
             params = [(''vs_currency'', PStr ''usd''), (''days'', PInt days)]\<rparr> = Inr response
          \<longrightarrow> fst (get_ohlc_data http coin_id days p) = Inr DataFrame
            \<and> length (sent (snd (get_ohlc_data http coin_id days p))) = length (sent p) + 1)
       \<and> (http \<lparr>url = markets_url,
             params = [(''vs_currency'', PStr ''usd''), (''order'', PStr ''market_cap_desc''),
                       (''per_page'', PInt n), (''page'', PInt 1)]\<rparr> = Inr response
          \<longrightarrow> fst (get_top_coins http n p) = Inr DataFrame
            \<and> length (sent (snd (get_top_coins http n p))) = length (sent p) + 1)
       \<and> (http \<lparr>url = market_chart_url coin_id,
             params = [(''vs_currency'', PStr ''usd''), (''days'', PInt days)]\<rparr> = Inr response
          \<longrightarrow> fst (get_market_chart http coin_id days p) = Inr DataFrame
            \<and> length (sent (snd (get_market_chart http coin_id days p))) = length (sent p) + 1)
       \<and> empty (DataFrame :: row frame)"
proof -
  from assms have ne: "status_code response \<noteq> 200" by auto
  show ?thesis
    by (simp add: get_ohlc_data_not_200 [OF _ ne] get_top_coins_not_200 [OF _ ne]
        get_market_chart_not_200 [OF _ ne] empty_DataFrame)
qed

theorem wrappers_return_empty_on_failure_witness:
  "(status_code \<lparr>status_code = 503, json = Other\<rparr> < 200
      \<or> 299 < status_code \<lparr>status_code = 503, json = Other\<rparr>)
   \<and> http_down \<lparr>url = ohlc_url ''bitcoin'',
          params = [(''vs_currency'', PStr ''usd''), (''days'', PInt 30)]\<rparr>
       = Inr \<lparr>status_code = 503, json = Other\<rparr>
   \<and> fst (get_ohlc_data http_down ''bitcoin'' 30 blank) = Inr DataFrame
   \<and> fst (get_top_coins http_down 5 blank) = Inr DataFrame
   \<and> fst (get_market_chart http_down ''bitcoin'' 30 blank) = Inr DataFrame"
  using wrappers_return_empty_on_failure
    [of "\<lparr>status_code = 503, json = Other\<rparr>" http_down "''bitcoin''" 30 blank 5]
  by (simp add: http_down_def)

lemma timestamp_zip_rows:
  "length ts = length rs \<Longrightarrow>
   map timestamp (map (\<lambda>(t, (_, ope, hi, lo, clo)).
       \<lparr>timestamp = t, open' = ope, high = hi, low = lo, close = clo\<rparr>) (zip ts rs)) = ts"
  by (induction ts rs rule: list_induct2) auto

lemma get_ohlc_data_200:
  assumes "http \<lparr>url = ohlc_url coin_id,
             params = [(''vs_currency'', PStr ''usd''), (''days'', PInt days)]\<rparr> = Inr response"
    and "status_code response = 200"
    and "json response = OhlcRows rs"
    and "fst (get_ohlc_data http coin_id days p) = Inr df"
  shows "map timestamp (rows df) = map (\<lambda>r. fst r * 1000000) rs"
proof (cases "to_datetime_series (map fst rs)")
  case (Inl e)
  with assms show ?thesis
    by (simp add: get_ohlc_data_def bind_requests_get raise_apply)
next
  case (Inr ts)
  then have ts: "ts = map (\<lambda>m. m * 1000000) (map fst rs)"
    by (rule to_datetime_series_Inr)
  then have len: "length ts = length rs" by simp
  from assms Inr have "df = \<lparr>columns = [''open'', ''high'', ''low'', ''close''],
      rows = map (\<lambda>(t, (_, ope, hi, lo, clo)).
        \<lparr>timestamp = t, open' = ope, high = hi, low = lo, close = clo\<rparr>) (zip ts rs)\<rparr>"
    by (simp add: get_ohlc_data_def bind_requests_get ret_apply)
  then have "map timestamp (rows df) = ts"
    using timestamp_zip_rows [OF len] by simp
  with ts show ?thesis by (simp add: comp_def)
qed

lemma get_ohlc_data_returns:
  assumes "http \<lparr>url = ohlc_url coin_id,
             params = [(''vs_currency'', PStr ''usd''), (''days'', PInt days)]\<rparr> = Inr response"
    and "status_code response = 200"
    and "json response = OhlcRows rs"
    and "list_all (\<lambda>m. - (2 ^ 63 - 1) \<le> m * 1000000 \<and> m * 1000000 \<le> 2 ^ 63 - 1) (map fst rs)"
  shows "\<exists>df. fst (get_ohlc_data http coin_id days p) = Inr df"
  using assms(1-3) to_datetime_series_in_range [OF assms(4)]
  by (simp add: get_ohlc_data_def bind_requests_get ret_apply)

lemma sorted_scale:
  "sorted (map (\<lambda>r. fst r * (1000000::int)) rs) = sorted (map fst rs)"
  by (induction rs) auto


text \<open>
  Claim C5 does not hold as stated: the wrapper never sorts. A response whose rows come
  newest first gives a table in the same, descending, order.
\<close>

theorem ohlc_unsorted_counterexample:
  "\<exists>df. fst (get_ohlc_data http_sample ''bitcoin'' 30 blank) = Inr df
      \<and> map timestamp (rows df) = [1700003600000000000, 1700000000000000000]
      \<and> \<not> sorted (map timestamp (rows df))"
proof -
  have "fst (get_ohlc_data http_sample ''bitcoin'' 30 blank) =
     Inr \<lparr>columns = [''open'', ''high'', ''low'', ''close''],
          rows = [\<lparr>timestamp = 1700003600000000000, open' = Fin 11, high = Fin 13,
                    low = Fin 10, close = Fin 12\<rparr>,
                  \<lparr>timestamp = 1700000000000000000, open' = Fin 10, high = Fin 12,
                    low = Fin 9, close = Fin 11\<rparr>]\<rparr>"
    by code_simp
  then show ?thesis by simp
qed

text \<open>
  Claim C5, amended. For every successful OHLC fetch (status 200, rows of the OHLC
  shape), the points returned are the upstream rows in the upstream order, each timestamp
  converted to nanoseconds; so they ascend by timestamp exactly when the upstream rows
  do. The fetch returns whenever every timestamp is inside the nanosecond range.
\<close>

theorem ohlc_order_follows_upstream:
  assumes "http \<lparr>url = ohlc_url coin_id,
             params = [(''vs_currency'', PStr ''usd''), (''days'', PInt days)]\<rparr> = Inr response"
    and "status_code response = 200"
    and "json response = OhlcRows rs"
  shows "(fst (get_ohlc_data http coin_id days p) = Inr df \<longrightarrow>
            map timestamp (rows df) = map (\<lambda>r. fst r * 1000000) rs
          \<and> sorted (map timestamp (rows df)) = sorted (map fst rs))
       \<and> (list_all (\<lambda>m. - (2 ^ 63 - 1) \<le> m * 1000000 \<and> m * 1000000 \<le> 2 ^ 63 - 1) (map fst rs)
            \<longrightarrow> (\<exists>df'. fst (get_ohlc_data http coin_id days p) = Inr df'))"
proof (intro conjI impI)
  assume r: "fst (get_ohlc_data http coin_id days p) = Inr df"
  show ts: "map timestamp (rows df) = map (\<lambda>r. fst r * 1000000) rs"
    by (rule get_ohlc_data_200 [where http = http, OF assms r])
  show "sorted (map timestamp (rows df)) = sorted (map fst rs)"
    unfolding ts by (rule sorted_scale)
next
  assume "list_all (\<lambda>m. - (2 ^ 63 - 1) \<le> m * 1000000 \<and> m * 1000000 \<le> 2 ^ 63 - 1) (map fst rs)"
  then show "\<exists>df'. fst (get_ohlc_data http coin_id days p) = Inr df'"
    by (rule get_ohlc_data_returns [where http = http, OF assms])
qed

theorem ohlc_order_follows_upstream_witness:
  "http_sample \<lparr>url = ohlc_url ''bitcoin'',
       params = [(''vs_currency'', PStr ''usd''), (''days'', PInt 30)]\<rparr>
     = Inr \<lparr>status_code = 200, json = OhlcRows sample_ohlc\<rparr>
   \<and> list_all (\<lambda>m. - (2 ^ 63 - 1) \<le> m * 1000000 \<and> m * 1000000 \<le> 2 ^ 63 - 1)
        (map fst sample_ohlc)
   \<and> (\<exists>df'. fst (get_ohlc_data http_sample ''bitcoin'' 30 blank) = Inr df')"
proof -
  have req: "http_sample \<lparr>url = ohlc_url ''bitcoin'',
       params = [(''vs_currency'', PStr ''usd''), (''days'', PInt 30)]\<rparr>
     = Inr \<lparr>status_code = 200, json = OhlcRows sample_ohlc\<rparr>"
    by (simp add: http_sample_def ohlc_url_def markets_url_def)
  have rng: "list_all (\<lambda>m. - (2 ^ 63 - 1) \<le> m * 1000000 \<and> m * 1000000 \<le> 2 ^ 63 - 1)
        (map fst sample_ohlc)"
    by (simp add: sample_ohlc_def)
  from ohlc_order_follows_upstream
    [where http = http_sample and coin_id = "''bitcoin''" and days = 30 and rs = sample_ohlc
       and response = "\<lparr>status_code = 200, json = OhlcRows sample_ohlc\<rparr>" and p = blank]
    rng req
  show ?thesis by simp
qed

section \<open>Volume share\<close>

lemma series_sum_Fin_aux: "foldl f_add (Fin a) (map Fin vs) = Fin (a + sum_list vs)"
  by (induction vs arbitrary: a) (auto simp: algebra_simps)

lemma series_sum_Fin: "series_sum (map Fin vs) = Fin (sum_list vs)"
  by (simp add: series_sum_def filter_map comp_def series_sum_Fin_aux)

lemma volume_percent_Fin:
  "sum_list vs \<noteq> 0 \<Longrightarrow>
   volume_percent (map Fin vs) = map (\<lambda>v. Fin (v / sum_list vs * 100)) vs"
  by (simp add: volume_percent_def series_sum_Fin comp_def)

lemma sum_list_shares:
  fixes vs :: "rat list"
  shows "t \<noteq> 0 \<Longrightarrow> (\<Sum>v\<leftarrow>vs. v / t * 100) = sum_list vs / t * 100"
  by (induction vs) (auto simp: field_simps)

lemma length_volume_percent: "length (volume_percent vs) = length vs"
  by (simp add: volume_percent_def)

text \<open>
  Claim C3 does not hold for every non-empty summary set: when the volumes sum to zero
  the division yields NaN (or an infinity) for every coin, and the percentages do not
  sum to 100.
\<close>

theorem volume_percent_zero_total_counterexample:
  "volume_percent [Fin 0] = [NaN] \<and> series_sum (volume_percent [Fin 0]) \<noteq> Fin 100"
  by (simp add: volume_percent_def series_sum_def)

text \<open>
  Claim C3, amended. For every summary set of finite volumes whose total is not zero,
  each percentage is volume / total * 100 and the percentages sum to exactly 100 in
  rational arithmetic (also as the column sum pandas computes).
\<close>

theorem volume_percent_sums_to_100:
  assumes "sum_list vs \<noteq> 0"
  shows "volume_percent (map Fin vs) = map (\<lambda>v. Fin (v / sum_list vs * 100)) vs
       \<and> (\<Sum>v\<leftarrow>vs. v / sum_list vs * 100) = 100
       \<and> series_sum (volume_percent (map Fin vs)) = Fin 100"
proof -
  have a: "volume_percent (map Fin vs) = map Fin (map (\<lambda>v. v / sum_list vs * 100) vs)"
    using assms by (simp add: volume_percent_Fin comp_def)
  have b: "(\<Sum>v\<leftarrow>vs. v / sum_list vs * 100) = 100"
    using assms sum_list_shares [of "sum_list vs" vs] by simp
  show ?thesis
    using assms b unfolding a series_sum_Fin by (simp add: comp_def)
qed

theorem volume_percent_sums_to_100_witness:
  "sum_list [100, 300 :: rat] \<noteq> 0
   \<and> volume_percent (map Fin [100, 300]) = [Fin 25, Fin 75]
   \<and> series_sum (volume_percent (map Fin [100, 300])) = Fin 100"
  using volume_percent_sums_to_100 [of "[100, 300]"] by (simp add: series_sum_def)


lemma fmt_shares:
  "format_f False 2 (Fin (100 / 3)) = ''33.33''"
  "format_f False 2 (Fin (80 / 3)) = ''26.67''"
  "format_f False 2 (Fin 20) = ''20.00''"
  "format_f False 2 (Fin (40 / 3)) = ''13.33''"
  "format_f False 2 (Fin (20 / 3)) = ''6.67''"
  by code_simp+

lemma empty_DataFrame_of_records: "empty (DataFrame_of_records cs) = (cs = [])"
  by (simp add: empty_def DataFrame_of_records_def coin_columns_def)

lemma columns_DataFrame_of_records:
  "cs \<noteq> [] \<Longrightarrow> columns (DataFrame_of_records cs) = coin_columns"
  by (simp add: DataFrame_of_records_def)

lemma total_volume_in_coin_columns: "''total_volume'' \<in> set coin_columns"
  by (simp add: coin_columns_def)

lemma cells_set_percent:
  "length vs = length (rows df) \<Longrightarrow> map cells (rows (set_percent df vs)) = map cells (rows df)"
proof -
  have "length vs = length rs \<Longrightarrow>
      map cells (map (\<lambda>(r, v). r\<lparr>percent := v\<rparr>) (zip rs vs)) = map cells rs"
    for rs :: "row list"
    by (induction vs rs rule: list_induct2) auto
  then show "length vs = length (rows df) \<Longrightarrow> ?thesis"
    by (simp add: set_percent_def)
qed

lemma percent_set_percent:
  "length vs = length (rows df) \<Longrightarrow> map percent (rows (set_percent df vs)) = vs"
proof -
  have "length vs = length rs \<Longrightarrow>
      map percent (map (\<lambda>(r, v). r\<lparr>percent := v\<rparr>) (zip rs vs)) = vs"
    for rs :: "row list"
    by (induction vs rs rule: list_induct2) auto
  then show "length vs = length (rows df) \<Longrightarrow> ?thesis"
    by (simp add: set_percent_def)
qed

subsection \<open>The sorted copy\<close>

lemma is_sort_order_set: "is_sort_order keys indexer \<Longrightarrow> set indexer = {0..<length keys}"
proof -
  assume "is_sort_order keys indexer"
  then have "sort indexer = [0..<length keys]"
    by (simp add: is_sort_order_def)
  then have "set (sort indexer) = set [0..<length keys]"
    by simp
  then show ?thesis by simp
qed

lemma is_sort_order_in_range:
  "is_sort_order keys indexer \<Longrightarrow> list_all (\<lambda>i. i < length keys) indexer"
  using is_sort_order_set [of keys indexer] by (auto simp: list_all_iff)

lemma is_sort_order_mset:
  assumes "is_sort_order keys indexer" and "length xs = length keys"
  shows "mset (map (\<lambda>i. xs ! i) indexer) = mset xs"
proof -
  from assms(1) have "sort indexer = [0..<length keys]"
    by (simp add: is_sort_order_def)
  then have "mset (sort indexer) = mset [0..<length xs]"
    by (simp add: assms(2))
  then have "mset indexer = mset [0..<length xs]"
    by simp
  then have "image_mset (\<lambda>i. xs ! i) (mset indexer) = image_mset (\<lambda>i. xs ! i) (mset [0..<length xs])"
    by simp
  then have "mset (map (\<lambda>i. xs ! i) indexer) = mset (map (\<lambda>i. xs ! i) [0..<length xs])"
    by simp
  then show ?thesis
    by (simp add: map_nth)
qed

text \<open>
  With an indexer of the kind the library returns, sorting returns a table of the same
  columns and the same rows, in descending order of \<^verbatim>\<open>percent\<close>, NaN last.
\<close>

lemma sort_values_sorted:
  assumes "is_sort_order (map percent (rows df)) (sort_order (map percent (rows df)))"
  shows "\<exists>df'. sort_values_percent_desc sort_order df = Inr df'
       \<and> columns df' = columns df
       \<and> mset (rows df') = mset (rows df)
       \<and> sorted_wrt (\<lambda>r s. desc_nan_last (percent r) (percent s)) (rows df')"
proof -
  let ?idx = "sort_order (map percent (rows df))"
  let ?df' = "df\<lparr>rows := map (\<lambda>i. rows df ! i) ?idx\<rparr>"
  from is_sort_order_in_range [OF assms]
  have rng: "list_all (\<lambda>i. i < length (rows df)) ?idx"
    by simp
  then have 1: "sort_values_percent_desc sort_order df = Inr ?df'"
    by (simp add: sort_values_percent_desc_def Let_def)
  have 2: "mset (rows ?df') = mset (rows df)"
    using is_sort_order_mset [OF assms, of "rows df"] by simp
  have eq: "map percent (map (\<lambda>i. rows df ! i) ?idx) = map (\<lambda>i. map percent (rows df) ! i) ?idx"
    using rng by (auto simp: list_all_iff)
  from assms have "sorted_wrt desc_nan_last (map (\<lambda>i. map percent (rows df) ! i) ?idx)"
    by (simp only: is_sort_order_def)
  then have "sorted_wrt desc_nan_last (map percent (map (\<lambda>i. rows df ! i) ?idx))"
    by (simp only: eq)
  then have 3: "sorted_wrt (\<lambda>r s. desc_nan_last (percent r) (percent s)) (rows ?df')"
    by (simp add: sorted_wrt_map)
  from 1 2 3 show ?thesis by simp
qed

lemma sort_values_columns:
  "sort_values_percent_desc sort_order df = Inr df' \<Longrightarrow> columns df' = columns df"
  by (auto simp: sort_values_percent_desc_def Let_def split: if_splits)

subsection \<open>A sorting routine\<close>

lemma f_less_asym: "f_less a b \<Longrightarrow> \<not> f_less b a"
  by (cases a; cases b) auto

lemma f_less_negtrans:
  "\<not> isnan b \<Longrightarrow> \<not> f_less a b \<Longrightarrow> \<not> f_less b c \<Longrightarrow> \<not> f_less a c"
  by (cases a; cases b; cases c) auto

lemma mset_insert_index: "mset (insert_index keys i js) = add_mset i (mset js)"
  by (induction js) auto

lemma mset_foldr_insert_index: "mset (foldr (insert_index keys) xs []) = mset xs"
  by (induction xs) (auto simp: mset_insert_index)

lemma set_insert_index: "set (insert_index keys i js) = insert i (set js)"
proof -
  have "mset (insert_index keys i js) = mset (i # js)"
    by (simp add: mset_insert_index)
  then have "set (insert_index keys i js) = set (i # js)"
    by (rule mset_eq_setD)
  then show ?thesis by simp
qed

lemma set_foldr_insert_index: "set (foldr (insert_index keys) xs []) = set xs"
  by (rule mset_eq_setD) (rule mset_foldr_insert_index)

lemma sorted_insert_index:
  assumes "sorted_wrt (\<lambda>i j. \<not> f_less (keys ! i) (keys ! j)) js"
    and "\<forall>j\<in>set js. \<not> isnan (keys ! j)"
  shows "sorted_wrt (\<lambda>i j. \<not> f_less (keys ! i) (keys ! j)) (insert_index keys i js)"
  using assms
proof (induction js)
  case Nil
  then show ?case by simp
next
  case (Cons j js)
  from Cons.prems have tail: "sorted_wrt (\<lambda>i j. \<not> f_less (keys ! i) (keys ! j)) js"
    and after_j: "\<forall>x\<in>set js. \<not> f_less (keys ! j) (keys ! x)"
    and nn_j: "\<not> isnan (keys ! j)"
    and nn: "\<forall>x\<in>set js. \<not> isnan (keys ! x)"
    by simp_all
  show ?case
  proof (cases "f_less (keys ! i) (keys ! j)")
    case True
    then have "\<not> f_less (keys ! j) (keys ! i)"
      by (rule f_less_asym)
    moreover have "sorted_wrt (\<lambda>i j. \<not> f_less (keys ! i) (keys ! j)) (insert_index keys i js)"
      using tail nn by (rule Cons.IH)
    ultimately show ?thesis
      using True after_j by (simp add: set_insert_index)
  next
    case False
    have "\<forall>x\<in>set js. \<not> f_less (keys ! i) (keys ! x)"
    proof
      fix x
      assume "x \<in> set js"
      with after_j have "\<not> f_less (keys ! j) (keys ! x)"
        by simp
      with nn_j False show "\<not> f_less (keys ! i) (keys ! x)"
        by (rule f_less_negtrans)
    qed
    with False Cons.prems(1) show ?thesis
      by simp
  qed
qed

lemma sorted_foldr_insert_index:
  "\<forall>j\<in>set xs. \<not> isnan (keys ! j) \<Longrightarrow>
   sorted_wrt (\<lambda>i j. \<not> f_less (keys ! i) (keys ! j)) (foldr (insert_index keys) xs [])"
proof (induction xs)
  case Nil
  then show ?case by simp
next
  case (Cons x xs)
  then have "sorted_wrt (\<lambda>i j. \<not> f_less (keys ! i) (keys ! j)) (foldr (insert_index keys) xs [])"
    by simp
  moreover from Cons.prems have "\<forall>j\<in>set (foldr (insert_index keys) xs []). \<not> isnan (keys ! j)"
    by (simp add: set_foldr_insert_index)
  ultimately show ?case
    by (simp add: sorted_insert_index)
qed



text \<open>
  The contract \<open>is_sort_order\<close> can be met on every key column, with ties and with NaN
  keys: the sample routine meets it.
\<close>

lemma sorted_wrt_any: "sorted_wrt (\<lambda>i j. True) xs"
  by (induction xs) simp_all

lemma sample_sort_order_sorts: "is_sort_order keys (sample_sort_order keys)"
proof -
  let ?n = "length keys"
  let ?A = "foldr (insert_index keys) (filter (\<lambda>i. \<not> isnan (keys ! i)) [0..<?n]) []"
  let ?B = "filter (\<lambda>i. isnan (keys ! i)) [0..<?n]"
  have "mset (?A @ ?B) = mset (filter (\<lambda>i. \<not> isnan (keys ! i)) [0..<?n])
      + mset (filter (\<lambda>i. isnan (keys ! i)) [0..<?n])"
    by (simp only: mset_append mset_foldr_insert_index)
  also have "\<dots> = filter_mset (\<lambda>i. isnan (keys ! i)) (mset [0..<?n])
      + filter_mset (\<lambda>i. \<not> isnan (keys ! i)) (mset [0..<?n])"
    by (simp only: mset_filter add.commute)
  also have "\<dots> = mset [0..<?n]"
    by (rule multiset_partition [symmetric])
  finally have "mset [0..<?n] = mset (?A @ ?B)"
    by (rule sym)
  moreover have "sorted [0..<?n]"
    by (rule sorted_upt)
  ultimately have perm: "sort (?A @ ?B) = [0..<?n]"
    by (rule properties_for_sort)
  have setA: "\<forall>i\<in>set ?A. \<not> isnan (keys ! i)"
    by (simp add: set_foldr_insert_index)
  have A: "sorted_wrt (\<lambda>i j. desc_nan_last (keys ! i) (keys ! j)) ?A"
  proof (rule sorted_wrt_mono_rel [where P = "\<lambda>i j. \<not> f_less (keys ! i) (keys ! j)"])
    fix i j
    assume i: "i \<in> set ?A" and ge: "\<not> f_less (keys ! i) (keys ! j)"
    from setA i have "\<not> isnan (keys ! i)"
      by (rule bspec)
    with ge show "desc_nan_last (keys ! i) (keys ! j)"
      by (simp add: desc_nan_last_def)
  next
    show "sorted_wrt (\<lambda>i j. \<not> f_less (keys ! i) (keys ! j)) ?A"
      by (rule sorted_foldr_insert_index) simp
  qed
  have nanB: "\<forall>j\<in>set ?B. isnan (keys ! j)"
    by simp
  have B: "sorted_wrt (\<lambda>i j. desc_nan_last (keys ! i) (keys ! j)) ?B"
  proof (rule sorted_wrt_mono_rel [where P = "\<lambda>i j. True"])
    fix i j
    assume "j \<in> set ?B"
    with nanB have "isnan (keys ! j)"
      by (rule bspec)
    then show "desc_nan_last (keys ! i) (keys ! j)"
      by (simp add: desc_nan_last_def)
  next
    show "sorted_wrt (\<lambda>i j. True) ?B"
      by (rule sorted_wrt_any)
  qed
  have AB: "\<forall>i\<in>set ?A. \<forall>j\<in>set ?B. desc_nan_last (keys ! i) (keys ! j)"
  proof (intro ballI)
    fix i j
    assume "j \<in> set ?B"
    with nanB have "isnan (keys ! j)"
      by (rule bspec)
    then show "desc_nan_last (keys ! i) (keys ! j)"
      by (simp add: desc_nan_last_def)
  qed
  from A B AB have "sorted_wrt (\<lambda>i j. desc_nan_last (keys ! i) (keys ! j)) (?A @ ?B)"
    by (simp only: sorted_wrt_append simp_thms)
  then have srt: "sorted_wrt desc_nan_last (map (\<lambda>i. keys ! i) (?A @ ?B))"
    by (simp only: sorted_wrt_map)
  show ?thesis
    unfolding is_sort_order_def sample_sort_order_def
    using perm srt by (rule conjI)
qed

text \<open>A list of positions that only descends is the positions in reverse.\<close>

lemma descending_indexer_unique:
  assumes "sort indexer = [0..<n]" and "sorted_wrt (\<lambda>i j. j \<le> i) indexer"
  shows "indexer = rev [0..<n]"
proof -
  have "mset (rev indexer) = mset indexer"
    by simp
  moreover from assms(2) have "sorted (rev indexer)"
    by (simp add: sorted_wrt_rev)
  ultimately have "sort indexer = rev indexer"
    by (rule properties_for_sort)
  with assms(1) have "rev indexer = [0..<n]"
    by simp
  then have "rev (rev indexer) = rev [0..<n]"
    by (rule arg_cong)
  then show ?thesis by simp
qed

text \<open>What tab 3 does to a table that has the volume column.\<close>

lemma tab3_apply:
  assumes "''total_volume'' \<in> set (columns df)"
    and "df_written = set_percent df (volume_percent (map (\<lambda>r. total_volume (cells r)) (rows df)))"
    and "sort_values_percent_desc sort_order df_written = Inr df_top5"
  shows "tab3 sort_order df coin_choice p =
      (Inr (df_written, df_top5),
       p\<lparr>shown := shown p
          @ [(Tab3, Subheader ''Top Five Cryptocurrencies by Trading Volume Share''),
             (Tab3, Caption ''The highlighted color in the bar chart indicates the coin(s) selected from the sidebar filter.'')]
          @ (if \<not> empty df_top5 then
              [(Tab3, PlotlyChart (Bar
                \<lparr>bar_x = map (\<lambda>r. name (cells r)) (rows df_top5),
                 bar_y = map percent (rows df_top5),
                 bar_text = map (\<lambda>r. format_f False 2 (percent r) @ ''%'') (rows df_top5),
                 bar_marker_color =
                   map (\<lambda>r. if id' (cells r) \<in> set coin_choice then ''steelblue'' else ''lightgray'')
                     (rows df_top5),
                 bar_title = ''Trading Volume Share (Top Five Cryptocurrencies)''\<rparr>))]
            else [])\<rparr>)"
  using assms(1,3) unfolding assms(2)
  by (simp add: tab3_def add_percent_def getitem_def seq_apply emit_apply ret_apply)

lemma tab3_Inr:
  assumes "''total_volume'' \<in> set (columns df)"
    and "fst (tab3 sort_order df coin_choice p) = Inr (df_written, df_top5)"
  shows "df_written = set_percent df (volume_percent (map (\<lambda>r. total_volume (cells r)) (rows df)))
       \<and> sort_values_percent_desc sort_order df_written = Inr df_top5"
proof -
  let ?dw = "set_percent df (volume_percent (map (\<lambda>r. total_volume (cells r)) (rows df)))"
  show ?thesis
  proof (cases "sort_values_percent_desc sort_order ?dw")
    case (Inl e)
    with assms show ?thesis
      by (simp add: tab3_def add_percent_def getitem_def raise_apply)
  next
    case (Inr dt)
    from assms(2) show ?thesis
      unfolding tab3_apply [OF assms(1) refl Inr] using Inr by simp
  qed
qed

lemma shares_keys_order:
  assumes "i < 5" and "j < 5"
    and "desc_nan_last ([Fin (20 / 3), Fin (40 / 3), Fin 20, Fin (80 / 3), Fin (100 / 3)] ! i)
           ([Fin (20 / 3), Fin (40 / 3), Fin 20, Fin (80 / 3), Fin (100 / 3)] ! j)"
  shows "j \<le> i"
proof -
  from assms(1) have i: "i = 0 \<or> i = 1 \<or> i = 2 \<or> i = 3 \<or> i = 4" by auto
  from assms(2) have j: "j = 0 \<or> j = 1 \<or> j = 2 \<or> j = 3 \<or> j = 4" by auto
  from i j assms(3) show ?thesis
    by (auto simp: desc_nan_last_def)
qed

text \<open>
  Claim C6. For a summary set of five coins with volumes 100, 200, 300, 400, 500, and
  whatever sorting routine the library uses, tab 3 returns, and the table it sorts holds
  the shares 100/3, 80/3, 20, 40/3, 20/3 in this (descending) order; the bar chart it
  draws plots them and labels them, rounded to two decimals, 33.33%, 26.67%, 20.00%,
  13.33%, 6.67%.
\<close>

theorem volume_shares_example:
  assumes "map total_volume cs = [Fin 100, Fin 200, Fin 300, Fin 400, Fin 500]"
    and "is_sort_order (volume_percent (map total_volume cs))
           (sort_order (volume_percent (map total_volume cs)))"
  shows "\<exists>df_written df_top5 pg fig.
           tab3 sort_order (DataFrame_of_records cs) coin_choice p = (Inr (df_written, df_top5), pg)
         \<and> map percent (rows df_top5)
             = [Fin (100 / 3), Fin (80 / 3), Fin 20, Fin (40 / 3), Fin (20 / 3)]
         \<and> charts pg = charts p @ [(Tab3, Bar fig)]
         \<and> bar_y fig = map percent (rows df_top5)
         \<and> bar_text fig = [''33.33%'', ''26.67%'', ''20.00%'', ''13.33%'', ''6.67%'']"
proof -
  let ?K = "[Fin (20 / 3), Fin (40 / 3), Fin 20, Fin (80 / 3), Fin (100 / 3)]"
  from assms(1) obtain c1 c2 c3 c4 c5 where cs: "cs = [c1, c2, c3, c4, c5]"
    and v: "total_volume c1 = Fin 100" "total_volume c2 = Fin 200" "total_volume c3 = Fin 300"
      "total_volume c4 = Fin 400" "total_volume c5 = Fin 500"
    by (auto simp: map_eq_Cons_conv)
  have cols: "''total_volume'' \<in> set (columns (DataFrame_of_records cs))"
    by (simp add: cs columns_DataFrame_of_records total_volume_in_coin_columns)
  have keys: "volume_percent (map total_volume cs) = ?K"
    by (simp add: cs v volume_percent_def series_sum_def)
  have pct: "volume_percent (map (\<lambda>r. total_volume (cells r)) (rows (DataFrame_of_records cs))) = ?K"
    by (simp add: cs v DataFrame_of_records_def volume_percent_def series_sum_def)
  define df_written where "df_written = set_percent (DataFrame_of_records cs) ?K"
  have rows_dw: "rows df_written
      = [\<lparr>cells = c1, percent = Fin (20 / 3)\<rparr>, \<lparr>cells = c2, percent = Fin (40 / 3)\<rparr>,
         \<lparr>cells = c3, percent = Fin 20\<rparr>, \<lparr>cells = c4, percent = Fin (80 / 3)\<rparr>,
         \<lparr>cells = c5, percent = Fin (100 / 3)\<rparr>]"
    by (simp add: df_written_def cs DataFrame_of_records_def set_percent_def)
  have cols_dw: "columns df_written \<noteq> []"
    by (simp add: df_written_def cs DataFrame_of_records_def set_percent_def coin_columns_def)
  from assms(2) have ok: "is_sort_order ?K (sort_order ?K)"
    by (simp only: keys)
  then have "sort (sort_order ?K) = [0..<length ?K]"
    and desc: "sorted_wrt desc_nan_last (map (\<lambda>i. ?K ! i) (sort_order ?K))"
    by (simp_all only: is_sort_order_def)
  moreover have "length ?K = 5"
    by simp
  ultimately have perm: "sort (sort_order ?K) = [0..<5]"
    by (simp only:)
  from is_sort_order_set [OF ok] have rng: "set (sort_order ?K) = {0..<5}"
    by (simp add: eval_nat_numeral)
  from desc have "sorted_wrt (\<lambda>i j. desc_nan_last (?K ! i) (?K ! j)) (sort_order ?K)"
    by (simp add: sorted_wrt_map)
  then have "sorted_wrt (\<lambda>i j. j \<le> i) (sort_order ?K)"
  proof (rule sorted_wrt_mono_rel [rotated])
    fix i j
    assume "i \<in> set (sort_order ?K)" "j \<in> set (sort_order ?K)"
      and "desc_nan_last (?K ! i) (?K ! j)"
    with rng show "j \<le> i"
      by (intro shares_keys_order) auto
  qed
  with perm have "sort_order ?K = rev [0..<5]"
    by (rule descending_indexer_unique)
  then have idx: "sort_order ?K = [4, 3, 2, 1, 0]"
    by (simp add: upt_conv_Cons)
  define df_top5 where "df_top5 = df_written\<lparr>rows :=
      [\<lparr>cells = c5, percent = Fin (100 / 3)\<rparr>, \<lparr>cells = c4, percent = Fin (80 / 3)\<rparr>,
       \<lparr>cells = c3, percent = Fin 20\<rparr>, \<lparr>cells = c2, percent = Fin (40 / 3)\<rparr>,
       \<lparr>cells = c1, percent = Fin (20 / 3)\<rparr>]\<rparr>"
  have srt: "sort_values_percent_desc sort_order df_written = Inr df_top5"
    by (simp add: sort_values_percent_desc_def rows_dw idx df_top5_def)
  have ne: "\<not> empty df_top5"
    using cols_dw by (simp add: df_top5_def empty_def)
  have dw: "df_written = set_percent (DataFrame_of_records cs)
      (volume_percent (map (\<lambda>r. total_volume (cells r)) (rows (DataFrame_of_records cs))))"
    by (simp only: pct df_written_def)
  show ?thesis
    unfolding tab3_apply [OF cols dw srt]
    using ne by (simp add: charts_def fmt_shares df_top5_def)
qed

theorem volume_shares_example_witness:
  "map total_volume sample_coins = [Fin 100, Fin 200, Fin 300, Fin 400, Fin 500]
   \<and> is_sort_order (volume_percent (map total_volume sample_coins))
        (sample_sort_order (volume_percent (map total_volume sample_coins)))
   \<and> (\<exists>df_written df_top5 pg fig.
           tab3 sample_sort_order (DataFrame_of_records sample_coins) [] blank
             = (Inr (df_written, df_top5), pg)
         \<and> map percent (rows df_top5)
             = [Fin (100 / 3), Fin (80 / 3), Fin 20, Fin (40 / 3), Fin (20 / 3)]
         \<and> charts pg = charts blank @ [(Tab3, Bar fig)]
         \<and> bar_y fig = map percent (rows df_top5)
         \<and> bar_text fig = [''33.33%'', ''26.67%'', ''20.00%'', ''13.33%'', ''6.67%''])"
proof -
  have v: "map total_volume sample_coins = [Fin 100, Fin 200, Fin 300, Fin 400, Fin 500]"
    by (simp add: sample_coins_def sample_coin_def)
  have ok: "is_sort_order (volume_percent (map total_volume sample_coins))
        (sample_sort_order (volume_percent (map total_volume sample_coins)))"
    by (rule sample_sort_order_sorts)
  from volume_shares_example [where cs = sample_coins and sort_order = sample_sort_order
      and coin_choice = "[]" and p = blank, OF v ok] v ok
  show ?thesis
    by blast
qed

section \<open>Colour assignment\<close>

lemma length_custom_colors: "length custom_colors = 5"
  by (simp add: custom_colors_def)

lemma assign_other:
  "k \<notin> set ids \<Longrightarrow> assign m (enumerate n ids) k = m k"
  by (induction ids arbitrary: m n) auto

lemma assign_nth:
  "distinct ids \<Longrightarrow> i < length ids \<Longrightarrow>
   assign m (enumerate n ids) (ids ! i) = Some (custom_colors ! ((n + i) mod length custom_colors))"
proof (induction ids arbitrary: m n i)
  case Nil
  then show ?case by simp
next
  case (Cons a ids)
  show ?case
  proof (cases i)
    case 0
    with Cons.prems show ?thesis
      by (simp add: assign_other)
  next
    case (Suc j)
    with Cons.prems have "j < length ids" "distinct ids" by simp_all
    from Cons.IH [OF this(2) this(1), of _ "Suc n"] Suc show ?thesis
      by simp
  qed
qed

lemma colors_nth:
  "distinct coin_ids \<Longrightarrow> i < length coin_ids \<Longrightarrow>
   colors coin_ids (coin_ids ! i) = Some (custom_colors ! (i mod 5))"
  using assign_nth [of coin_ids i Map.empty 0]
  by (simp add: colors_def length_custom_colors)

lemma lookup_all_nth:
  "(\<And>i. i < length ks \<Longrightarrow> m (ks ! i) = Some (g i)) \<Longrightarrow>
   lookup_all m ks = Inr (map g [0..<length ks])"
proof (induction ks arbitrary: g)
  case Nil
  then show ?case by simp
next
  case (Cons k ks)
  have "lookup_all m ks = Inr (map (\<lambda>i. g (Suc i)) [0..<length ks])"
    using Cons.prems [of "Suc _"] by (intro Cons.IH) simp
  moreover have "m k = Some (g 0)"
    using Cons.prems [of 0] by simp
  ultimately show ?case
    by (simp add: upt_conv_Cons map_Suc_upt [symmetric] del: upt_Suc)
qed

text \<open>A repeated id takes the colour of its last position, as dict keys do.\<close>

lemma colors_repeated_id: "colors [''a'', ''a''] ''a'' = Some ''#EF553B''"
  by (simp add: colors_def enumerate_eq_zip custom_colors_def)

text \<open>
  Claim C7. The colour mapping of the bubble view is the index-modulo mapping into the
  fixed palette of five hex colours: for a list of coin ids without repetition (a coin
  id names one coin), the coin at position i is mapped to colour i mod 5 of the palette,
  and the marker colours handed to the chart are the palette colours i mod 5 in list
  order. The mapping is a function of the list, so equal lists give equal mappings.
\<close>

theorem colors_index_modulo:
  "(distinct coin_ids \<and> i < length coin_ids \<longrightarrow>
      colors coin_ids (coin_ids ! i) = Some (custom_colors ! (i mod 5)))
   \<and> (distinct coin_ids \<longrightarrow>
      lookup_all (colors coin_ids) coin_ids
        = Inr (map (\<lambda>i. custom_colors ! (i mod 5)) [0..<length coin_ids]))
   \<and> custom_colors = [''#636EFA'', ''#EF553B'', ''#00CC96'', ''#AB63FA'', ''#FFA15A'']
   \<and> (coin_ids = coin_ids' \<longrightarrow> colors coin_ids = colors coin_ids')"
proof -
  have "lookup_all (colors coin_ids) coin_ids
        = Inr (map (\<lambda>i. custom_colors ! (i mod 5)) [0..<length coin_ids])"
    if "distinct coin_ids"
    using that by (intro lookup_all_nth) (simp add: colors_nth)
  then show ?thesis
    by (simp add: colors_nth custom_colors_def)
qed

theorem colors_index_modulo_witness:
  "distinct [''a'', ''b'', ''c'', ''d'', ''e'', ''f''] \<and> (5::nat) < length [''a'', ''b'', ''c'', ''d'', ''e'', ''f'']
   \<and> colors [''a'', ''b'', ''c'', ''d'', ''e'', ''f''] ''f'' = Some ''#636EFA''
   \<and> lookup_all (colors [''a'', ''b'', ''c'', ''d'', ''e'', ''f'']) [''a'', ''b'', ''c'', ''d'', ''e'', ''f'']
       = Inr [''#636EFA'', ''#EF553B'', ''#00CC96'', ''#AB63FA'', ''#FFA15A'', ''#636EFA'']"
  using colors_index_modulo [of "[''a'', ''b'', ''c'', ''d'', ''e'', ''f'']" 5]
  by (simp add: custom_colors_def upt_conv_Cons)


section \<open>The page\<close>

lemma sidebar_overview_apply:
  "sidebar_overview df p =
     (Inr (), p\<lparr>shown := shown p @
        (if \<not> empty df then
           [(Sidebar, Header ''Top Five Cryptocurrencies Overview''),
            (Sidebar, Markdown ''View the current price and 24-hour price change for the top five cryptocurrencies by market cap.'')]
           @ map (\<lambda>row. (Sidebar, Metric
                 (name (cells row) @ '' ('' @ upper (symbol (cells row)) @ '')'')
                 (''$'' @ format_f True 2 (current_price (cells row)))
                 (format_f False 2 (price_change_percentage_24h (cells row)) @ ''%''))) (rows df)
           @ [(Sidebar, Markdown ''---'')]
         else [])\<rparr>)"
  by (simp add: sidebar_overview_def seq_apply emit_apply foreach_emit ret_apply)

lemma coin_filters_no_id:
  "''id'' \<notin> set (columns df) \<Longrightarrow>
   coin_filters df multiselect_value p =
     (Inl (KeyError ''id''),
      p\<lparr>shown := shown p @
        [(Sidebar, Title ''Coin Filters''),
         (Sidebar, Markdown ''Select one or more coins to visualize their market trends, trading volume, etc.'')]\<rparr>)"
  by (simp add: coin_filters_def seq_apply emit_apply getitem_def raise_apply)

lemma coin_filters_ok:
  "''id'' \<in> set (columns df) \<Longrightarrow> rows df \<noteq> [] \<Longrightarrow>
   coin_filters df multiselect_value p =
     (Inr multiselect_value,
      p\<lparr>shown := shown p @
        [(Sidebar, Title ''Coin Filters''),
         (Sidebar, Markdown ''Select one or more coins to visualize their market trends, trading volume, etc.''),
         (Sidebar, Multiselect ''Select Coin(s) to Display'' (map (\<lambda>r. id' (cells r)) (rows df))
            (id' (cells (hd (rows df)))))]\<rparr>)"
  by (cases "rows df")
     (simp_all add: coin_filters_def seq_apply emit_apply getitem_def ret_apply)

lemma coin_filters_Inr:
  "coin_filters df v p = (Inr cc, p') \<Longrightarrow> ''id'' \<in> set (columns df)"
  by (rule ccontr) (simp add: coin_filters_no_id)

lemma tab1_no_selection:
  "tab1 http [] selectbox_value p =
     (Inr (), p\<lparr>shown := shown p @
        [(Tab1, Subheader ''Price Movement (Candlestick Chart)''),
         (Tab1, Info ''Please select at least one coin to see candlestick chart.'')]\<rparr>)"
  by (simp add: tab1_def seq_apply emit_apply)

lemma tab2_no_selection:
  "''id'' \<in> set (columns df) \<Longrightarrow>
   tab2 df [] p =
     (Inr (), p\<lparr>shown := shown p @
        [(Tab2, Subheader ''Market Cap and Current Price Comparison (Bubble Size = Trading Volume)''),
         (Tab2, Caption ''For better comparison, select multiple coins from the filter.''),
         (Tab2, Info ''Please select at least one coin to view bubble chart.'')]\<rparr>)"
  by (simp add: tab2_def seq_apply emit_apply getitem_def empty_def Let_def)

subsection \<open>An empty summary table\<close>

lemma render_raises_without_columns:
  assumes "get_top_coins http 5 (p\<lparr>shown := shown p @
      [(Page, PageConfig ''Crypto Dashboard'' ''wide''), (Page, Title ''Crypto Market Dashboard'')]\<rparr>)
        = (Inr df, p')"
    and "columns df = []"
  shows "fst (render http sort_order multiselect_value selectbox_value p) = Inl (KeyError ''id'')"
  using assms
  by (simp add: render_def seq_apply bind_apply emit_apply sidebar_overview_apply
      coin_filters_no_id)

text \<open>The same happens when the listing is answered with status 200 and no coin.\<close>

lemma render_raises_on_empty_listing:
  assumes "http \<lparr>url = markets_url,
             params = [(''vs_currency'', PStr ''usd''), (''order'', PStr ''market_cap_desc''),
                       (''per_page'', PInt 5), (''page'', PInt 1)]\<rparr>
           = Inr \<lparr>status_code = 200, json = Markets []\<rparr>"
  shows "fst (render http sort_order multiselect_value selectbox_value p) = Inl (KeyError ''id'')"
proof -
  have "columns (DataFrame_of_records []) = []"
    by (simp add: DataFrame_of_records_def)
  with get_top_coins_200 [where http = http and n = 5 and cs = "[]", OF assms]
  show ?thesis
    by (rule render_raises_without_columns)
qed

text \<open>
  Claim C1 says that an empty summary fetch leaves every view in a no-data state and
  that nothing raises. The script does otherwise: when the markets request is answered
  with a status other than 200, \<^verbatim>\<open>df_top5\<close> is \<^verbatim>\<open>pd.DataFrame()\<close>, and the
  multiselect's \<^verbatim>\<open>df_top5["id"]\<close> raises \<^verbatim>\<open>KeyError\<close> before any tab is drawn.
\<close>

theorem render_raises_on_empty_summary:
  assumes "http \<lparr>url = markets_url,
             params = [(''vs_currency'', PStr ''usd''), (''order'', PStr ''market_cap_desc''),
                       (''per_page'', PInt 5), (''page'', PInt 1)]\<rparr> = Inr response"
    and "status_code response \<noteq> 200"
  shows "fst (render http sort_order multiselect_value selectbox_value p) = Inl (KeyError ''id'')"
proof -
  have "get_top_coins http 5 (p\<lparr>shown := shown p @
      [(Page, PageConfig ''Crypto Dashboard'' ''wide''), (Page, Title ''Crypto Market Dashboard'')]\<rparr>)
      = (Inr DataFrame, p\<lparr>shown := shown p @
      [(Page, PageConfig ''Crypto Dashboard'' ''wide''), (Page, Title ''Crypto Market Dashboard'')],
         sent := sent p @ [\<lparr>url = markets_url,
             params = [(''vs_currency'', PStr ''usd''), (''order'', PStr ''market_cap_desc''),
                       (''per_page'', PInt 5), (''page'', PInt 1)]\<rparr>]\<rparr>)"
    using get_top_coins_not_200 [where http = http and n = 5, OF assms] by simp
  moreover have "columns (DataFrame :: row frame) = []"
    by (simp add: DataFrame_def)
  ultimately show ?thesis
    by (rule render_raises_without_columns)
qed

theorem render_raises_on_empty_summary_witness:
  "http_down \<lparr>url = markets_url,
       params = [(''vs_currency'', PStr ''usd''), (''order'', PStr ''market_cap_desc''),
                 (''per_page'', PInt 5), (''page'', PInt 1)]\<rparr>
     = Inr \<lparr>status_code = 503, json = Other\<rparr>
   \<and> status_code \<lparr>status_code = 503, json = Other\<rparr> \<noteq> 200
   \<and> fst (render http_down sample_sort_order [] 30 blank) = Inl (KeyError ''id'')"
  using render_raises_on_empty_summary
    [where http = http_down and response = "\<lparr>status_code = 503, json = Other\<rparr>"
       and sort_order = sample_sort_order and multiselect_value = "[]" and selectbox_value = 30
       and p = blank]
  by (simp add: http_down_def)


subsection \<open>No coin selected\<close>

lemma figure_of_map_none:
  "(\<And>x. figure_of (f x) = []) \<Longrightarrow> concat (map figure_of (map f xs)) = []"
  by (induction xs) auto

lemma sample_sort_order_valid:
  "is_sort_order (volume_percent (map total_volume sample_coins))
     (sample_sort_order (volume_percent (map total_volume sample_coins)))"
  by (rule sample_sort_order_sorts)

lemma render_no_selection_page:
  assumes "http \<lparr>url = markets_url,
             params = [(''vs_currency'', PStr ''usd''), (''order'', PStr ''market_cap_desc''),
                       (''per_page'', PInt 5), (''page'', PInt 1)]\<rparr>
           = Inr \<lparr>status_code = 200, json = Markets cs\<rparr>"
    and "cs \<noteq> []"
    and "is_sort_order (volume_percent (map total_volume cs))
           (sort_order (volume_percent (map total_volume cs)))"
    and "df_written = set_percent (DataFrame_of_records cs) (volume_percent (map total_volume cs))"
  shows "\<exists>df_top5 pg.
      sort_values_percent_desc sort_order df_written = Inr df_top5
    \<and> mset (rows df_top5) = mset (rows df_written)
    \<and> render http sort_order [] selectbox_value blank = (Inr (df_written, df_top5), pg)
    \<and> (Tab1, Info ''Please select at least one coin to see candlestick chart.'') \<in> set (shown pg)
    \<and> (Tab2, Info ''Please select at least one coin to view bubble chart.'') \<in> set (shown pg)
    \<and> charts pg = [(Tab3, Bar
          \<lparr>bar_x = map (\<lambda>r. name (cells r)) (rows df_top5),
           bar_y = map percent (rows df_top5),
           bar_text = map (\<lambda>r. format_f False 2 (percent r) @ ''%'') (rows df_top5),
           bar_marker_color = replicate (length (rows df_top5)) ''lightgray'',
           bar_title = ''Trading Volume Share (Top Five Cryptocurrencies)''\<rparr>)]"
proof -
  let ?df = "DataFrame_of_records cs"
  have cols: "columns ?df = coin_columns"
    using assms(2) by (rule columns_DataFrame_of_records)
  have rws: "rows ?df \<noteq> []"
    using assms(2) by (simp add: DataFrame_of_records_def)
  have idc: "''id'' \<in> set (columns ?df)"
    by (simp add: cols coin_columns_def)
  have tvc: "''total_volume'' \<in> set (columns ?df)"
    by (simp add: cols coin_columns_def)
  have vols: "map (\<lambda>r. total_volume (cells r)) (rows ?df) = map total_volume cs"
    by (simp add: DataFrame_of_records_def comp_def)
  have dw: "df_written = set_percent ?df
      (volume_percent (map (\<lambda>r. total_volume (cells r)) (rows ?df)))"
    by (simp only: vols assms(4))
  have len_dw: "length (rows df_written) = length cs"
    by (simp add: assms(4) set_percent_def length_volume_percent DataFrame_of_records_def)
  have "length (volume_percent (map total_volume cs)) = length (rows ?df)"
    by (simp add: length_volume_percent DataFrame_of_records_def)
  then have keys: "map percent (rows df_written) = volume_percent (map total_volume cs)"
    unfolding assms(4) by (rule percent_set_percent)
  from assms(3) have "is_sort_order (map percent (rows df_written))
      (sort_order (map percent (rows df_written)))"
    by (simp only: keys)
  from sort_values_sorted [where sort_order = sort_order and df = df_written, OF this]
  obtain df_top5
    where srt: "sort_values_percent_desc sort_order df_written = Inr df_top5"
      and cdt: "columns df_top5 = columns df_written"
      and mdt: "mset (rows df_top5) = mset (rows df_written)"
    by blast
  from mdt have "length (rows df_top5) = length (rows df_written)"
    by (metis size_mset)
  with len_dw have len: "length (rows df_top5) = length cs"
    by simp
  have "columns df_top5 \<noteq> []"
    by (simp add: cdt assms(4) set_percent_def cols coin_columns_def)
  with len assms(2) have ne_dt: "\<not> empty df_top5"
    by (auto simp: empty_def)
  have ne_df: "\<not> empty ?df"
    using assms(2) by (simp add: empty_DataFrame_of_records)
  show ?thesis
    apply (rule exI [of _ df_top5])
    using ne_dt srt mdt
    by (simp add: render_def seq_apply bind_apply emit_apply
        get_top_coins_200 [where http = http and n = 5, OF assms(1)]
        sidebar_overview_apply coin_filters_ok [OF idc rws] tab1_no_selection
        tab2_no_selection [OF idc] tab3_apply [OF tvc dw srt] blank_def
        ne_df charts_def figure_of_map_none map_replicate_const)
qed

text \<open>
  Claim C9. With no coin selected and a non-empty summary set, the render completes;
  tab 1 and tab 2 each show their no-selection message; the only figure on the page is
  the bar chart of tab 3, so neither of the other tabs draws a chart; the bar chart has
  one bar for each coin of the summary set, every bar in the muted colour lightgray.
  This holds whichever order the library's sorting routine gives to equal shares.
\<close>

theorem no_selection_views:
  assumes "http \<lparr>url = markets_url,
             params = [(''vs_currency'', PStr ''usd''), (''order'', PStr ''market_cap_desc''),
                       (''per_page'', PInt 5), (''page'', PInt 1)]\<rparr>
           = Inr \<lparr>status_code = 200, json = Markets cs\<rparr>"
    and "cs \<noteq> []"
    and "is_sort_order (volume_percent (map total_volume cs))
           (sort_order (volume_percent (map total_volume cs)))"
  shows "\<exists>df_written df_top5 pg fig.
      render http sort_order [] selectbox_value blank = (Inr (df_written, df_top5), pg)
    \<and> (Tab1, Info ''Please select at least one coin to see candlestick chart.'') \<in> set (shown pg)
    \<and> (Tab2, Info ''Please select at least one coin to view bubble chart.'') \<in> set (shown pg)
    \<and> charts pg = [(Tab3, Bar fig)]
    \<and> mset (bar_x fig) = mset (map name cs)
    \<and> bar_marker_color fig = replicate (length cs) ''lightgray''"
proof -
  define df_written
    where "df_written = set_percent (DataFrame_of_records cs) (volume_percent (map total_volume cs))"
  from render_no_selection_page [where http = http and selectbox_value = selectbox_value
      and sort_order = sort_order and cs = cs, OF assms df_written_def]
  obtain df_top5 pg where mdt: "mset (rows df_top5) = mset (rows df_written)"
    and pg: "render http sort_order [] selectbox_value blank = (Inr (df_written, df_top5), pg)"
    "(Tab1, Info ''Please select at least one coin to see candlestick chart.'') \<in> set (shown pg)"
    "(Tab2, Info ''Please select at least one coin to view bubble chart.'') \<in> set (shown pg)"
    "charts pg = [(Tab3, Bar
          \<lparr>bar_x = map (\<lambda>r. name (cells r)) (rows df_top5),
           bar_y = map percent (rows df_top5),
           bar_text = map (\<lambda>r. format_f False 2 (percent r) @ ''%'') (rows df_top5),
           bar_marker_color = replicate (length (rows df_top5)) ''lightgray'',
           bar_title = ''Trading Volume Share (Top Five Cryptocurrencies)''\<rparr>)]"
    by blast
  have "length (volume_percent (map total_volume cs)) = length (rows (DataFrame_of_records cs))"
    by (simp add: length_volume_percent DataFrame_of_records_def)
  then have "map cells (rows df_written) = map cells (rows (DataFrame_of_records cs))"
    unfolding df_written_def by (rule cells_set_percent)
  then have cells_dw: "map cells (rows df_written) = cs"
    by (simp add: DataFrame_of_records_def comp_def)
  have "mset (map cells (rows df_top5)) = mset (map cells (rows df_written))"
    using mdt by (metis mset_map)
  then have cells_dt: "mset (map cells (rows df_top5)) = mset cs"
    by (simp only: cells_dw)
  then have len: "length (rows df_top5) = length cs"
    by (metis length_map size_mset)
  have "map (\<lambda>r. name (cells r)) (rows df_top5) = map name (map cells (rows df_top5))"
    by (simp add: comp_def)
  then have names: "mset (map (\<lambda>r. name (cells r)) (rows df_top5)) = mset (map name cs)"
    using cells_dt by (metis mset_map)
  show ?thesis
    apply (rule exI [of _ df_written], rule exI [of _ df_top5], rule exI [of _ pg])
    apply (rule exI [of _ "\<lparr>bar_x = map (\<lambda>r. name (cells r)) (rows df_top5),
           bar_y = map percent (rows df_top5),
           bar_text = map (\<lambda>r. format_f False 2 (percent r) @ ''%'') (rows df_top5),
           bar_marker_color = replicate (length (rows df_top5)) ''lightgray'',
           bar_title = ''Trading Volume Share (Top Five Cryptocurrencies)''\<rparr>"])
    using pg names len by simp
qed

theorem no_selection_views_witness:
  "http_sample \<lparr>url = markets_url,
       params = [(''vs_currency'', PStr ''usd''), (''order'', PStr ''market_cap_desc''),
                 (''per_page'', PInt 5), (''page'', PInt 1)]\<rparr>
     = Inr \<lparr>status_code = 200, json = Markets sample_coins\<rparr>
   \<and> sample_coins \<noteq> []
   \<and> is_sort_order (volume_percent (map total_volume sample_coins))
        (sample_sort_order (volume_percent (map total_volume sample_coins)))
   \<and> (\<exists>df_written df_top5 pg fig.
        render http_sample sample_sort_order [] 30 blank = (Inr (df_written, df_top5), pg)
      \<and> (Tab1, Info ''Please select at least one coin to see candlestick chart.'') \<in> set (shown pg)
      \<and> (Tab2, Info ''Please select at least one coin to view bubble chart.'') \<in> set (shown pg)
      \<and> charts pg = [(Tab3, Bar fig)]
      \<and> mset (bar_x fig) = mset (map name sample_coins)
      \<and> bar_marker_color fig = replicate (length sample_coins) ''lightgray'')"
proof -
  have req: "http_sample \<lparr>url = markets_url,
       params = [(''vs_currency'', PStr ''usd''), (''order'', PStr ''market_cap_desc''),
                 (''per_page'', PInt 5), (''page'', PInt 1)]\<rparr>
     = Inr \<lparr>status_code = 200, json = Markets sample_coins\<rparr>"
    by (simp add: http_sample_def)
  have ne: "sample_coins \<noteq> []"
    by (simp add: sample_coins_def)
  from no_selection_views [where http = http_sample and cs = sample_coins
      and sort_order = sample_sort_order and selectbox_value = 30,
      OF req ne sample_sort_order_valid] req ne sample_sort_order_valid
  show ?thesis by blast
qed

subsection \<open>The summary table during a render\<close>

text \<open>A render that returns has fetched a table with columns and has run tab 3 on it.\<close>

lemma render_completes:
  assumes "fst (render http sort_order v d p) = Inr y"
  shows "\<exists>df cc q1 q2 q3. get_top_coins http 5 q1 = (Inr df, q2) \<and> ''id'' \<in> set (columns df)
           \<and> fst (tab3 sort_order df cc q3) = Inr y"
proof -
  from assms obtain q0 where 1:
    "fst (seq (emit Page (Title ''Crypto Market Dashboard''))
       (bind (get_top_coins http 5) (\<lambda>df_top5.
          seq (sidebar_overview df_top5)
         (bind (coin_filters df_top5 v) (\<lambda>coin_choice.
          seq (emit Page (Tabs [''Price Overview'', ''Market Comparison'', ''Volume Analysis'']))
         (seq (tab1 http coin_choice d)
         (seq (tab2 df_top5 coin_choice)
              (tab3 sort_order df_top5 coin_choice))))))) q0) = Inr y"
    unfolding render_def by (blast dest: fst_seq_Inr)
  then obtain q1 where 2:
    "fst (bind (get_top_coins http 5) (\<lambda>df_top5.
          seq (sidebar_overview df_top5)
         (bind (coin_filters df_top5 v) (\<lambda>coin_choice.
          seq (emit Page (Tabs [''Price Overview'', ''Market Comparison'', ''Volume Analysis'']))
         (seq (tab1 http coin_choice d)
         (seq (tab2 df_top5 coin_choice)
              (tab3 sort_order df_top5 coin_choice)))))) q1) = Inr y"
    by (blast dest: fst_seq_Inr)
  then obtain df q2 where g: "get_top_coins http 5 q1 = (Inr df, q2)" and 3:
    "fst (seq (sidebar_overview df)
         (bind (coin_filters df v) (\<lambda>coin_choice.
          seq (emit Page (Tabs [''Price Overview'', ''Market Comparison'', ''Volume Analysis'']))
         (seq (tab1 http coin_choice d)
         (seq (tab2 df coin_choice)
              (tab3 sort_order df coin_choice))))) q2) = Inr y"
    by (blast dest: fst_bind_Inr)
  from 3 obtain q2' where 4:
    "fst (bind (coin_filters df v) (\<lambda>coin_choice.
          seq (emit Page (Tabs [''Price Overview'', ''Market Comparison'', ''Volume Analysis'']))
         (seq (tab1 http coin_choice d)
         (seq (tab2 df coin_choice)
              (tab3 sort_order df coin_choice)))) q2') = Inr y"
    by (blast dest: fst_seq_Inr)
  then obtain cc q3 where c: "coin_filters df v q2' = (Inr cc, q3)" and 5:
    "fst (seq (emit Page (Tabs [''Price Overview'', ''Market Comparison'', ''Volume Analysis'']))
         (seq (tab1 http cc d)
         (seq (tab2 df cc)
              (tab3 sort_order df cc))) q3) = Inr y"
    by (blast dest: fst_bind_Inr)
  from 5 obtain q4 where "fst (seq (tab1 http cc d) (seq (tab2 df cc) (tab3 sort_order df cc)) q4) = Inr y"
    by (blast dest: fst_seq_Inr)
  then obtain q5 where "fst (seq (tab2 df cc) (tab3 sort_order df cc) q5) = Inr y"
    by (blast dest: fst_seq_Inr)
  then obtain q6 where "fst (tab3 sort_order df cc q6) = Inr y"
    by (blast dest: fst_seq_Inr)
  with g coin_filters_Inr [OF c] show ?thesis by blast
qed

lemma sample_markets_request:
  "http_sample \<lparr>url = markets_url,
       params = [(''vs_currency'', PStr ''usd''), (''order'', PStr ''market_cap_desc''),
                 (''per_page'', PInt 5), (''page'', PInt 1)]\<rparr>
     = Inr \<lparr>status_code = 200, json = Markets sample_coins\<rparr>"
  by (simp add: http_sample_def)

lemma sample_render_completes:
  "\<exists>df_top5 pg.
     sort_values_percent_desc sample_sort_order
       (set_percent (DataFrame_of_records sample_coins)
          (volume_percent (map total_volume sample_coins))) = Inr df_top5
   \<and> render http_sample sample_sort_order [] 30 blank =
       (Inr (set_percent (DataFrame_of_records sample_coins)
               (volume_percent (map total_volume sample_coins)), df_top5), pg)"
proof -
  have ne: "sample_coins \<noteq> []"
    by (simp add: sample_coins_def)
  from render_no_selection_page [where http = http_sample and selectbox_value = 30
      and sort_order = sample_sort_order and cs = sample_coins,
      OF sample_markets_request ne sample_sort_order_valid refl]
  show ?thesis by blast
qed

text \<open>
  Claim C4 does not hold as stated: tab 3 writes a new column into the summary table and
  rebinds its name to a re-sorted copy. For the sample listing the fetched table has the
  seven fetched columns and the rows bitcoin, ethereum, tether, ripple, solana; after the
  render the table has an eighth column \<^verbatim>\<open>percent\<close>, and \<^verbatim>\<open>df_top5\<close> holds the rows in
  the opposite order.
\<close>

theorem summary_table_changed_counterexample:
  "\<exists>df_written df_top5.
      fst (render http_sample sample_sort_order [] 30 blank) = Inr (df_written, df_top5)
    \<and> columns (DataFrame_of_records sample_coins) = coin_columns
    \<and> columns df_written = coin_columns @ [''percent'']
    \<and> map (\<lambda>r. id' (cells r)) (rows (DataFrame_of_records sample_coins))
        = [''bitcoin'', ''ethereum'', ''tether'', ''ripple'', ''solana'']
    \<and> map (\<lambda>r. id' (cells r)) (rows df_top5)
        = [''solana'', ''ripple'', ''tether'', ''ethereum'', ''bitcoin'']"
proof -
  let ?dw = "set_percent (DataFrame_of_records sample_coins)
             (volume_percent (map total_volume sample_coins))"
  have 1: "columns (DataFrame_of_records sample_coins) = coin_columns"
    by code_simp
  have 2: "columns ?dw = coin_columns @ [''percent'']"
    by code_simp
  have 3: "map (\<lambda>r. id' (cells r)) (rows (DataFrame_of_records sample_coins))
        = [''bitcoin'', ''ethereum'', ''tether'', ''ripple'', ''solana'']"
    by code_simp
  have 4: "(case sort_values_percent_desc sample_sort_order ?dw of
              Inl e \<Rightarrow> False
            | Inr d \<Rightarrow> map (\<lambda>r. id' (cells r)) (rows d)
                = [''solana'', ''ripple'', ''tether'', ''ethereum'', ''bitcoin''])"
    by code_simp
  from sample_render_completes obtain df_top5 pg
    where srt: "sort_values_percent_desc sample_sort_order ?dw = Inr df_top5"
      and "render http_sample sample_sort_order [] 30 blank = (Inr (?dw, df_top5), pg)"
    by blast
  then have r: "fst (render http_sample sample_sort_order [] 30 blank) = Inr (?dw, df_top5)"
    by simp
  from 4 srt have 5: "map (\<lambda>r. id' (cells r)) (rows df_top5)
        = [''solana'', ''ripple'', ''tether'', ''ethereum'', ''bitcoin'']"
    by simp
  show ?thesis
  proof (intro exI conjI)
    show "fst (render http_sample sample_sort_order [] 30 blank) = Inr (?dw, df_top5)"
      by (rule r)
    show "columns (DataFrame_of_records sample_coins) = coin_columns"
      by (rule 1)
    show "columns ?dw = coin_columns @ [''percent'']"
      by (rule 2)
    show "map (\<lambda>r. id' (cells r)) (rows (DataFrame_of_records sample_coins))
        = [''bitcoin'', ''ethereum'', ''tether'', ''ripple'', ''solana'']"
      by (rule 3)
    show "map (\<lambda>r. id' (cells r)) (rows df_top5)
        = [''solana'', ''ripple'', ''tether'', ''ethereum'', ''bitcoin'']"
      by (rule 5)
  qed
qed

text \<open>
  Claim C4, amended. When a render completes, the Coin Summary table produced by the
  fetch has changed in one way: tab 3 has written the derived column \<^verbatim>\<open>percent\<close> into
  it, each cell the row's volume share. The label is appended to its columns; the
  fetched cells of every row, the rows and their order are as fetched. The table
  \<^verbatim>\<open>df_top5\<close> ends bound to is a copy of it with the same columns and the same rows, in
  descending order of \<^verbatim>\<open>percent\<close> with NaN last; the order among rows of equal
  \<^verbatim>\<open>percent\<close> is the library's choice.
\<close>

theorem summary_table_after_render:
  assumes fetch: "http \<lparr>url = markets_url,
             params = [(''vs_currency'', PStr ''usd''), (''order'', PStr ''market_cap_desc''),
                       (''per_page'', PInt 5), (''page'', PInt 1)]\<rparr>
           = Inr \<lparr>status_code = 200, json = Markets cs\<rparr>"
    and valid: "is_sort_order (volume_percent (map total_volume cs))
           (sort_order (volume_percent (map total_volume cs)))"
    and completes: "fst (render http sort_order multiselect_value selectbox_value p)
           = Inr (df_written, df_top5)"
  shows "columns df_written = coin_columns @ [''percent'']
       \<and> map cells (rows df_written) = cs
       \<and> map percent (rows df_written) = volume_percent (map total_volume cs)
       \<and> columns df_top5 = columns df_written
       \<and> mset (rows df_top5) = mset (rows df_written)
       \<and> sorted_wrt (\<lambda>r s. desc_nan_last (percent r) (percent s)) (rows df_top5)"
proof -
  from render_completes [OF completes] obtain df cc q1 q2 q3
    where g: "get_top_coins http 5 q1 = (Inr df, q2)"
      and idc: "''id'' \<in> set (columns df)"
      and t: "fst (tab3 sort_order df cc q3) = Inr (df_written, df_top5)"
    by blast
  from g get_top_coins_200 [where http = http and n = 5 and p = q1, OF fetch]
  have df: "df = DataFrame_of_records cs" by simp
  with idc have ne: "cs \<noteq> []"
    by (auto simp: DataFrame_of_records_def)
  then have cols: "columns df = coin_columns"
    by (simp add: df columns_DataFrame_of_records)
  then have tvc: "''total_volume'' \<in> set (columns df)"
    by (simp add: coin_columns_def)
  have vols: "map (\<lambda>r. total_volume (cells r)) (rows df) = map total_volume cs"
    by (simp add: df DataFrame_of_records_def comp_def)
  note tab3_Inr [OF tvc t, unfolded vols]
  then have dw: "df_written = set_percent df (volume_percent (map total_volume cs))"
    and srt: "sort_values_percent_desc sort_order df_written = Inr df_top5"
    by blast+
  have len: "length (volume_percent (map total_volume cs)) = length (rows df)"
    by (simp add: length_volume_percent df DataFrame_of_records_def)
  have 1: "columns df_written = coin_columns @ [''percent'']"
    by (simp add: dw set_percent_def cols) (simp add: coin_columns_def)
  from len have "map cells (rows df_written) = map cells (rows df)"
    unfolding dw by (rule cells_set_percent)
  then have 2: "map cells (rows df_written) = cs"
    by (simp add: df DataFrame_of_records_def comp_def)
  from len have 3: "map percent (rows df_written) = volume_percent (map total_volume cs)"
    unfolding dw by (rule percent_set_percent)
  from valid have "is_sort_order (map percent (rows df_written))
      (sort_order (map percent (rows df_written)))"
    by (simp only: 3)
  from sort_values_sorted [where sort_order = sort_order and df = df_written, OF this] srt
  have 4: "columns df_top5 = columns df_written"
    and 5: "mset (rows df_top5) = mset (rows df_written)"
    and 6: "sorted_wrt (\<lambda>r s. desc_nan_last (percent r) (percent s)) (rows df_top5)"
    by auto
  from 1 2 3 4 5 6 show ?thesis by simp
qed

theorem summary_table_after_render_witness:
  "http_sample \<lparr>url = markets_url,
       params = [(''vs_currency'', PStr ''usd''), (''order'', PStr ''market_cap_desc''),
                 (''per_page'', PInt 5), (''page'', PInt 1)]\<rparr>
     = Inr \<lparr>status_code = 200, json = Markets sample_coins\<rparr>
   \<and> is_sort_order (volume_percent (map total_volume sample_coins))
        (sample_sort_order (volume_percent (map total_volume sample_coins)))
   \<and> (\<exists>df_written df_top5.
        fst (render http_sample sample_sort_order [] 30 blank) = Inr (df_written, df_top5)
      \<and> columns df_written = coin_columns @ [''percent'']
      \<and> map cells (rows df_written) = sample_coins
      \<and> mset (rows df_top5) = mset (rows df_written)
      \<and> sorted_wrt (\<lambda>r s. desc_nan_last (percent r) (percent s)) (rows df_top5))"
proof -
  from sample_render_completes obtain df_written df_top5 pg
    where "render http_sample sample_sort_order [] 30 blank = (Inr (df_written, df_top5), pg)"
    by blast
  then have r: "fst (render http_sample sample_sort_order [] 30 blank) = Inr (df_written, df_top5)"
    by simp
  from summary_table_after_render [where http = http_sample and sort_order = sample_sort_order,
      OF sample_markets_request sample_sort_order_valid r]
    sample_markets_request sample_sort_order_valid r
  show ?thesis by blast
qed

section \<open>Requests sent by a render\<close>

lemma sent_ret: "set (sent (snd (ret x p))) \<subseteq> set (sent p) \<union> S"
  by (simp add: ret_apply)

lemma sent_raise: "set (sent (snd (raise e p))) \<subseteq> set (sent p) \<union> S"
  by (simp add: raise_apply)

lemma sent_lift: "set (sent (snd (lift r p))) \<subseteq> set (sent p) \<union> S"
  by (cases r) (simp_all add: ret_apply raise_apply)

lemma sent_emit: "set (sent (snd (emit pl el p))) \<subseteq> set (sent p) \<union> S"
  by (simp add: emit_apply)

lemma sent_requests_get:
  "\<lparr>url = u, params = ps\<rparr> \<in> S \<Longrightarrow>
   set (sent (snd (requests_get http u ps p))) \<subseteq> set (sent p) \<union> S"
  by (simp add: requests_get_def)

lemma sent_bind:
  assumes "\<And>p. set (sent (snd (m p))) \<subseteq> set (sent p) \<union> S"
    and "\<And>x p. set (sent (snd (f x p))) \<subseteq> set (sent p) \<union> S"
  shows "set (sent (snd (bind m f p))) \<subseteq> set (sent p) \<union> S"
proof (cases "m p")
  case (Pair r p')
  from assms(1) [of p] Pair have 1: "set (sent p') \<subseteq> set (sent p) \<union> S" by simp
  show ?thesis
  proof (cases r)
    case (Inl e)
    with Pair 1 show ?thesis by (simp add: bind_apply)
  next
    case (Inr x)
    with Pair have "bind m f p = f x p'" by (simp add: bind_apply)
    with assms(2) [of x p'] 1 show ?thesis by auto
  qed
qed

lemma sent_seq:
  assumes "\<And>p. set (sent (snd (m p))) \<subseteq> set (sent p) \<union> S"
    and "\<And>p. set (sent (snd (n p))) \<subseteq> set (sent p) \<union> S"
  shows "set (sent (snd (seq m n p))) \<subseteq> set (sent p) \<union> S"
  unfolding seq_def using assms by (rule sent_bind)

lemma sent_foreach:
  assumes "\<And>x p. set (sent (snd (body x p))) \<subseteq> set (sent p) \<union> S"
  shows "set (sent (snd (foreach xs body p))) \<subseteq> set (sent p) \<union> S"
proof (induction xs arbitrary: p)
  case Nil
  show ?case by (simp add: sent_ret)
next
  case (Cons x xs)
  show ?case
    unfolding foreach.simps by (rule sent_seq) (rule assms, rule Cons.IH)
qed

lemma sent_if:
  assumes "c \<Longrightarrow> set (sent (snd (m p))) \<subseteq> set (sent p) \<union> S"
    and "\<not> c \<Longrightarrow> set (sent (snd (n p))) \<subseteq> set (sent p) \<union> S"
  shows "set (sent (snd ((if c then m else n) p))) \<subseteq> set (sent p) \<union> S"
  using assms by simp

lemmas sent_rules = sent_bind sent_seq sent_foreach sent_if sent_emit sent_ret sent_raise sent_lift

lemma sent_get_top_coins:
  "set (sent (snd (get_top_coins http n p)))
     \<subseteq> set (sent p) \<union> {r. url r = markets_url \<or> (\<exists>c. url r = ohlc_url c)}"
  unfolding get_top_coins_def
  by (intro sent_rules sent_requests_get) (auto simp: sent_ret sent_raise split: json_value.splits)

lemma sent_get_ohlc_data:
  "set (sent (snd (get_ohlc_data http coin_id days p)))
     \<subseteq> set (sent p) \<union> {r. url r = markets_url \<or> (\<exists>c. url r = ohlc_url c)}"
proof -
  have body: "set (sent (snd ((case j of
        OhlcRows rs \<Rightarrow> bind (lift (to_datetime_series (map fst rs))) (f rs)
      | _ \<Rightarrow> raise Malformed) q))) \<subseteq> set (sent q) \<union> S"
    if "\<And>rs ts q. set (sent (snd (f rs ts q))) \<subseteq> set (sent q) \<union> S"
    for j q S and f :: "(int \<times> float64 \<times> float64 \<times> float64 \<times> float64) list
      \<Rightarrow> int list \<Rightarrow> ohlc_point frame script"
    by (cases j) (simp_all add: sent_raise sent_bind sent_lift that)
  show ?thesis
    unfolding get_ohlc_data_def
    by (intro sent_rules sent_requests_get body) auto
qed

lemma sent_sidebar_overview:
  "set (sent (snd (sidebar_overview df p))) \<subseteq> set (sent p) \<union> S"
  by (simp add: sidebar_overview_apply)

lemma sent_coin_filters:
  "set (sent (snd (coin_filters df v p))) \<subseteq> set (sent p) \<union> S"
  unfolding coin_filters_def by (intro sent_rules)

lemma sent_tab1:
  "set (sent (snd (tab1 http coin_choice days p)))
     \<subseteq> set (sent p) \<union> {r. url r = markets_url \<or> (\<exists>c. url r = ohlc_url c)}"
  unfolding tab1_def by (intro sent_rules sent_get_ohlc_data)

lemma sent_tab2:
  "set (sent (snd (tab2 df coin_choice p))) \<subseteq> set (sent p) \<union> S"
  unfolding tab2_def Let_def by (intro sent_rules)

lemma sent_tab3:
  "set (sent (snd (tab3 sort_order df coin_choice p))) \<subseteq> set (sent p) \<union> S"
  unfolding tab3_def by (intro sent_rules)

lemma sent_render:
  "set (sent (snd (render http sort_order v d p)))
     \<subseteq> set (sent p) \<union> {r. url r = markets_url \<or> (\<exists>c. url r = ohlc_url c)}"
  unfolding render_def
  by (intro sent_rules sent_get_top_coins sent_sidebar_overview sent_coin_filters
      sent_tab1 sent_tab2 sent_tab3)

lemma last_ohlc_url: "last (ohlc_url c) = CHR ''c''"
  by (simp add: ohlc_url_def)

lemma last_market_chart_url: "last (market_chart_url c) = CHR ''t''"
  by (simp add: market_chart_url_def)

lemma last_markets_url: "last markets_url = CHR ''s''"
  by (simp add: markets_url_def)

text \<open>
  Claim C10. Whatever the selection and whatever the upstream service answers, a render
  (also one that ends in an exception) sends no request to the market-chart endpoint:
  no request it has sent has the URL that \<^verbatim>\<open>get_market_chart\<close> requests, for any coin.
  Every request sent goes to the markets listing or to an OHLC endpoint.
\<close>

theorem market_chart_never_requested:
  "r \<in> set (sent (snd (render http sort_order multiselect_value selectbox_value blank)))
   \<Longrightarrow> url r \<noteq> market_chart_url coin_id
       \<and> (url r = markets_url \<or> (\<exists>c. url r = ohlc_url c))"
proof
  assume r: "r \<in> set (sent (snd (render http sort_order multiselect_value selectbox_value blank)))"
  from r sent_render [of http sort_order multiselect_value selectbox_value blank]
  show known: "url r = markets_url \<or> (\<exists>c. url r = ohlc_url c)"
    by (auto simp: blank_def)
  show "url r \<noteq> market_chart_url coin_id"
  proof
    assume "url r = market_chart_url coin_id"
    with known have "last (market_chart_url coin_id) = CHR ''s''
        \<or> last (market_chart_url coin_id) = CHR ''c''"
      using last_markets_url last_ohlc_url by metis
    then show False
      by (simp add: last_market_chart_url)
  qed
qed

theorem market_chart_never_requested_witness:
  "\<lparr>url = markets_url,
      params = [(''vs_currency'', PStr ''usd''), (''order'', PStr ''market_cap_desc''),
                (''per_page'', PInt 5), (''page'', PInt 1)]\<rparr>
     \<in> set (sent (snd (render http_down sample_sort_order [''bitcoin''] 30 blank)))
   \<and> markets_url \<noteq> market_chart_url ''bitcoin''"
proof -
  have mem: "\<lparr>url = markets_url,
      params = [(''vs_currency'', PStr ''usd''), (''order'', PStr ''market_cap_desc''),
                (''per_page'', PInt 5), (''page'', PInt 1)]\<rparr>
     \<in> set (sent (snd (render http_down sample_sort_order [''bitcoin''] 30 blank)))"
    by code_simp
  from market_chart_never_requested [OF mem, of "''bitcoin''"] mem
  show ?thesis by simp
qed


end
